theory Spec2Isabelle
  imports Main
begin

text \<open>
  A model of the browser client of the ledger's JSON gateway: the class \<open>DamlApi\<close>
  (\<open>login\<close>, \<open>logout\<close>, \<open>getPackages\<close>, \<open>findPackageId\<close>, \<open>queryContracts\<close>,
  \<open>createContract\<close>, \<open>createSimpleToken\<close>, \<open>exerciseChoice\<close>) and the function
  \<open>fetchAllContracts\<close> of the component \<open>App\<close>. The gateway is a parameter: every
  statement holds for whatever it answers. An operation takes the state of the client and
  returns what it returned or threw together with the new state, which records the
  requests sent.
\<close>

section \<open>Strings\<close>

text \<open>
  JavaScript strings are modelled as \<open>string\<close>. The string methods the client
  uses on response texts and template identifiers are written out: \<open>startsWith\<close>,
  \<open>endsWith\<close>, \<open>includes\<close> and \<open>split(':')\<close>. \<open>toLowerCase\<close> maps the ASCII capitals
  only.
\<close>

fun startsWith :: "string \<Rightarrow> string \<Rightarrow> bool" where
  "startsWith s [] = True"
| "startsWith [] (p # ps) = False"
| "startsWith (c # cs) (p # ps) = (c = p \<and> startsWith cs ps)"

fun includes_str :: "string \<Rightarrow> string \<Rightarrow> bool" where
  "includes_str [] sub = (sub = [])"
| "includes_str (c # cs) sub = (startsWith (c # cs) sub \<or> includes_str cs sub)"

definition lowerChar :: "char \<Rightarrow> char" where
  "lowerChar c =
     (case map_of (zip ''ABCDEFGHIJKLMNOPQRSTUVWXYZ'' ''abcdefghijklmnopqrstuvwxyz'') c of
        None \<Rightarrow> c
      | Some l \<Rightarrow> l)"

definition toLowerCase :: "string \<Rightarrow> string" where
  "toLowerCase s = map lowerChar s"

text \<open>\<open>splitOn c s acc\<close>: the pieces of \<open>s\<close> between occurrences of \<open>c\<close>; \<open>acc\<close> is
  the piece being read, reversed.\<close>

fun splitOn :: "char \<Rightarrow> string \<Rightarrow> string \<Rightarrow> string list" where
  "splitOn c [] acc = [rev acc]"
| "splitOn c (x # xs) acc =
     (if x = c then rev acc # splitOn c xs [] else splitOn c xs (x # acc))"

definition split_colon :: "string \<Rightarrow> string list" where
  "split_colon s = splitOn (CHR '':'') s []"


section \<open>Errors, requests and responses\<close>

text \<open>Every thrown value of the client is an error object with a message.\<close>

datatype error = Error string | TypeError string | SyntaxError string | InvalidCharacterError

fun message :: "error \<Rightarrow> string" where
  "message (Error m) = m"
| "message (TypeError m) = m"
| "message (SyntaxError m) = m"
| "message InvalidCharacterError = ''InvalidCharacterError''"

type_synonym jsobj = "(string \<times> string) list"

datatype reqbody =
    NoBody
  | QueryBody "string list"
  | CreateBody string jsobj
  | ExerciseBody string string jsobj
  | LoginBody string

record request =
  url :: string
  http_method :: string
  headers :: "(string \<times> string) list"
  body :: reqbody

text \<open>
  A \<open>fetch\<close> either rejects (\<open>NetworkError\<close>, with the message of the rejection) or
  yields a response: its \<open>ok\<close> flag, what \<open>text()\<close> gives and what \<open>json()\<close> gives,
  where \<open>Inl m\<close> is the \<open>SyntaxError\<close> of a body that does not parse. The parsed bodies
  are typed by endpoint, at the shape the client reads.
\<close>

datatype 'a response = NetworkError string | Response bool string "string + 'a"

record party =
  displayName :: "string option"
  party_identifier :: "string option"

record contract =
  contractId :: string
  templateId :: "string option"
  payload :: jsobj

text \<open>The \<open>result\<close> property of a parsed body; \<open>None\<close> when it is absent.\<close>

type_synonym 'a result_body = "'a list option"

text \<open>
  The environment: the build-time variable \<open>REACT_APP_API_URL\<close>, the gateway behind each
  path (its answer may depend on all requests sent so far), the encoder of the token
  payload (\<open>btoa(JSON.stringify(...))\<close> without padding, failing on a character \<open>btoa\<close>
  rejects) and the clock in seconds.
\<close>

record env =
  REACT_APP_API_URL :: "string option"
  gw_parties :: "request list \<Rightarrow> request \<Rightarrow> party result_body response"
  gw_packages :: "request list \<Rightarrow> request \<Rightarrow> string result_body response"
  gw_query :: "request list \<Rightarrow> request \<Rightarrow> contract result_body response"
  gw_create :: "request list \<Rightarrow> request \<Rightarrow> string response"
  gw_exercise :: "request list \<Rightarrow> request \<Rightarrow> string response"
  btoa_payload :: "string \<Rightarrow> string option \<Rightarrow> nat \<Rightarrow> string option"
  clock :: "request list \<Rightarrow> nat"

definition API_BASE_URL :: "env \<Rightarrow> string" where
  "API_BASE_URL e =
     (case REACT_APP_API_URL e of
        None \<Rightarrow> ''/v1''
      | Some u \<Rightarrow> if u = [] then ''/v1'' else u)"

section \<open>The client state\<close>

text \<open>
  The fields of the \<open>DamlApi\<close> object, the browser's \<open>localStorage\<close> and the requests
  sent so far, oldest first.
\<close>

record state =
  token :: "string option"
  userId :: "string option"
  partyIdentifier :: "string option"
  localStorage :: "string \<rightharpoonup> string"
  sent :: "request list"

text \<open>Truthiness of a value that is \<open>null\<close> or a string.\<close>

fun truthy :: "string option \<Rightarrow> bool" where
  "truthy None = False"
| "truthy (Some v) = (v \<noteq> [])"

text \<open>String conversion inside a template literal or \<open>setItem\<close>.\<close>

fun str_null :: "string option \<Rightarrow> string" where
  "str_null None = ''null''"
| "str_null (Some v) = v"

fun str_undefined :: "string option \<Rightarrow> string" where
  "str_undefined None = ''undefined''"
| "str_undefined (Some v) = v"

definition constructor :: "(string \<rightharpoonup> string) \<Rightarrow> request list \<Rightarrow> state" where
  "constructor st rs =
     \<lparr>token = st ''daml_token'', userId = st ''daml_user_id'',
      partyIdentifier = st ''daml_party_identifier'', localStorage = st, sent = rs\<rparr>"

definition bearer :: "string \<Rightarrow> string \<times> string" where
  "bearer t = (''Authorization'', ''Bearer '' @ t)"

definition json_headers :: "string \<Rightarrow> (string \<times> string) list" where
  "json_headers t = [(''Content-Type'', ''application/json''), bearer t]"

definition fetch :: "(request list \<Rightarrow> request \<Rightarrow> 'a response) \<Rightarrow> request \<Rightarrow> state
    \<Rightarrow> 'a response \<times> state" where
  "fetch gw r s = (gw (sent s) r, s\<lparr>sent := sent s @ [r]\<rparr>)"

definition or_empty :: "'a result_body \<Rightarrow> 'a list" where
  "or_empty r = (case r of None \<Rightarrow> [] | Some xs \<Rightarrow> xs)"

section \<open>login, logout, isAuthenticated\<close>

definition jwt_header :: string where
  "jwt_header = ''eyJhbGciOiJub25lIiwidHlwIjoiSldUIn0''"

definition createSimpleJWT :: "env \<Rightarrow> string \<Rightarrow> string option \<Rightarrow> state \<Rightarrow> error + string" where
  "createSimpleJWT e uid pid s =
     (case btoa_payload e uid pid (clock e (sent s) + 86400) of
        None \<Rightarrow> Inl InvalidCharacterError
      | Some p \<Rightarrow> Inr (jwt_header @ ''.'' @ p @ ''.''))"

definition party_matches :: "string \<Rightarrow> party \<Rightarrow> bool" where
  "party_matches uid p =
     ((case displayName p of None \<Rightarrow> False | Some d \<Rightarrow> toLowerCase d = toLowerCase uid)
      \<or> (case party_identifier p of None \<Rightarrow> False
          | Some i \<Rightarrow> startsWith (toLowerCase i) (toLowerCase uid)))"

definition parties_request :: "env \<Rightarrow> string \<Rightarrow> request" where
  "parties_request e t =
     \<lparr>url = API_BASE_URL e @ ''/parties'', http_method = ''GET'', headers = [bearer t],
      body = NoBody\<rparr>"

definition login :: "env \<Rightarrow> string \<Rightarrow> state \<Rightarrow> (error + string) \<times> state" where
  "login e uid s =
     (case fetch (gw_parties e) (parties_request e uid) s of
        (NetworkError m, s1) \<Rightarrow> (Inl (TypeError m), s1)
      | (Response ok txt js, s1) \<Rightarrow>
          if \<not> ok then
            (Inl (Error ''Failed to fetch parties. Make sure the JSON API is running.''), s1)
          else
            (case js of
               Inl m \<Rightarrow> (Inl (SyntaxError m), s1)
             | Inr partiesData \<Rightarrow>
                 (case find (party_matches uid) (or_empty partiesData) of
                    None \<Rightarrow> (Inl (Error (''Party not found for userId: '' @ uid)), s1)
                  | Some userParty \<Rightarrow>
                      (case createSimpleJWT e uid (party_identifier userParty) s1 of
                         Inl err \<Rightarrow> (Inl err, s1)
                       | Inr tok \<Rightarrow>
                           (case fetch (gw_parties e) (parties_request e tok) s1 of
                              (NetworkError m, s2) \<Rightarrow> (Inl (TypeError m), s2)
                            | (Response ok2 txt2 js2, s2) \<Rightarrow>
                                if \<not> ok2 then
                                  (Inl (Error (''Authentication failed: '' @ txt2)), s2)
                                else
                                  (Inr tok,
                                   s2\<lparr>token := Some tok, userId := Some uid,
                                      partyIdentifier := party_identifier userParty,
                                      localStorage := (localStorage s2)
                                        (''daml_token'' \<mapsto> tok,
                                         ''daml_user_id'' \<mapsto> uid,
                                         ''daml_party_identifier'' \<mapsto>
                                            str_undefined (party_identifier userParty))\<rparr>))))))"

definition logout :: "state \<Rightarrow> state" where
  "logout s =
     s\<lparr>token := None, userId := None, partyIdentifier := None,
       localStorage := (localStorage s)
         (''daml_token'' := None, ''daml_user_id'' := None,
          ''daml_party_identifier'' := None)\<rparr>"

definition isAuthenticated :: "state \<Rightarrow> bool" where
  "isAuthenticated s = truthy (token s)"

section \<open>getPackages and findPackageId\<close>

definition packages_request :: "env \<Rightarrow> string \<Rightarrow> request" where
  "packages_request e t =
     \<lparr>url = API_BASE_URL e @ ''/packages'', http_method = ''GET'', headers = [bearer t],
      body = NoBody\<rparr>"

definition query_request :: "env \<Rightarrow> string \<Rightarrow> string list \<Rightarrow> request" where
  "query_request e t tids =
     \<lparr>url = API_BASE_URL e @ ''/query'', http_method = ''POST'', headers = json_headers t,
      body = QueryBody tids\<rparr>"

definition getPackages :: "env \<Rightarrow> state \<Rightarrow> (error + string result_body) \<times> state" where
  "getPackages e s =
     (if \<not> truthy (token s) then (Inl (Error ''Not authenticated''), s)
      else
        (case fetch (gw_packages e) (packages_request e (str_null (token s))) s of
           (NetworkError m, s1) \<Rightarrow> (Inl (TypeError m), s1)
         | (Response ok txt js, s1) \<Rightarrow>
             if \<not> ok then (Inl (Error (''Failed to fetch packages: '' @ txt)), s1)
             else (case js of
                     Inl m \<Rightarrow> (Inl (SyntaxError m), s1)
                   | Inr packagesData \<Rightarrow> (Inr packagesData, s1))))"

text \<open>The loop over the contracts of the all-contracts query: the package id of the
  first contract whose template id has three parts, the second being \<open>SimpleToken\<close>.\<close>

fun extract_package :: "contract list \<Rightarrow> string option" where
  "extract_package [] = None"
| "extract_package (c # cs) =
     (case templateId c of
        None \<Rightarrow> extract_package cs
      | Some t \<Rightarrow>
          if t = [] then extract_package cs
          else
            (let parts = split_colon t in
             if length parts = 3 \<and> parts ! 1 = ''SimpleToken'' then Some (parts ! 0)
             else extract_package cs))"

definition simple_token_template :: "string \<Rightarrow> string" where
  "simple_token_template p = p @ '':SimpleToken:SimpleToken''"

definition cache_package :: "string \<Rightarrow> state \<Rightarrow> state" where
  "cache_package p s = s\<lparr>localStorage := (localStorage s)(''daml_package_id'' \<mapsto> p)\<rparr>"

text \<open>The loop over the candidate package ids: one test query each; a rejected fetch
  moves on to the next candidate.\<close>

fun probe_packages :: "env \<Rightarrow> string list \<Rightarrow> state \<Rightarrow> string option \<times> state" where
  "probe_packages e [] s = (None, s)"
| "probe_packages e (p # ps) s =
     (case fetch (gw_query e)
             (query_request e (str_null (token s)) [simple_token_template p]) s of
        (NetworkError m, s1) \<Rightarrow> probe_packages e ps s1
      | (Response ok responseText js, s1) \<Rightarrow>
          if ok \<or> (\<not> includes_str responseText ''Cannot resolve''
                    \<and> \<not> includes_str responseText ''unknownTemplateIds'')
          then (Some p, cache_package p s1)
          else probe_packages e ps s1)"

text \<open>The body of the \<open>try\<close> block of \<open>findPackageId\<close>; \<open>Inl\<close> is what it throws.\<close>

definition findPackageId_try :: "env \<Rightarrow> state \<Rightarrow> (error + string option) \<times> state" where
  "findPackageId_try e s =
     (case fetch (gw_query e) (query_request e (str_null (token s)) []) s of
        (NetworkError m, s1) \<Rightarrow> (Inl (TypeError m), s1)
      | (Response ok txt js, s1) \<Rightarrow>
          (case (if ok then
                   (case js of
                      Inl m \<Rightarrow> Inl (SyntaxError m)
                    | Inr allContracts \<Rightarrow> Inr (extract_package (or_empty allContracts)))
                 else Inr None) of
             Inl err \<Rightarrow> (Inl err, s1)
           | Inr (Some packageId) \<Rightarrow> (Inr (Some packageId), cache_package packageId s1)
           | Inr None \<Rightarrow>
               (case getPackages e s1 of
                  (Inl err, s2) \<Rightarrow> (Inl err, s2)
                | (Inr packagesData, s2) \<Rightarrow>
                    (case probe_packages e (or_empty packagesData) s2 of
                       (r, s3) \<Rightarrow> (Inr r, s3)))))"

definition findPackageId :: "env \<Rightarrow> state \<Rightarrow> (error + string option) \<times> state" where
  "findPackageId e s =
     (if truthy (localStorage s ''daml_package_id'')
      then (Inr (localStorage s ''daml_package_id''), s)
      else
        (case findPackageId_try e s of
           (Inl err, s1) \<Rightarrow> (Inr None, s1)
         | (Inr r, s1) \<Rightarrow> (Inr r, s1)))"

text \<open>The test that the probe loop of \<open>findPackageId\<close> applies to the answer of a probe.\<close>

definition probe_accepts :: "contract result_body response \<Rightarrow> bool" where
  "probe_accepts r =
     (case r of
        NetworkError m \<Rightarrow> False
      | Response ok tx js \<Rightarrow>
          ok \<or> (\<not> includes_str tx ''Cannot resolve''
                 \<and> \<not> includes_str tx ''unknownTemplateIds''))"

text \<open>The answers to the all-contracts query after which \<open>findPackageId\<close> goes on to
  \<open>getPackages\<close>: not OK, or OK with no \<open>SimpleToken\<close> contract.\<close>

definition no_package_found :: "contract result_body response \<Rightarrow> bool" where
  "no_package_found r =
     (case r of
        NetworkError m \<Rightarrow> False
      | Response ok tx js \<Rightarrow>
          (if ok then (case js of Inl m \<Rightarrow> False
                       | Inr b \<Rightarrow> extract_package (or_empty b) = None)
           else True))"

definition probe_request :: "env \<Rightarrow> state \<Rightarrow> string \<Rightarrow> request" where
  "probe_request e s p = query_request e (str_null (token s)) [simple_token_template p]"

definition all_contracts_request :: "env \<Rightarrow> state \<Rightarrow> request" where
  "all_contracts_request e s = query_request e (str_null (token s)) []"

section \<open>queryContracts\<close>

definition template_filter :: "contract \<Rightarrow> bool" where
  "template_filter c =
     (let t = (case templateId c of None \<Rightarrow> [] | Some t \<Rightarrow> t) in
      includes_str t ''SimpleToken'' \<or> includes_str t ''Escrow''
      \<or> includes_str t ''CollateralLock'')"

text \<open>The template ids queried: the given ones, or the three built from the package id
  when none is given.\<close>

definition finalTemplateIds :: "env \<Rightarrow> string list \<Rightarrow> state \<Rightarrow> (error + string list) \<times> state" where
  "finalTemplateIds e tids s =
     (if tids = [] then
        (case findPackageId e s of
           (Inl err, s1) \<Rightarrow> (Inl err, s1)
         | (Inr packageId, s1) \<Rightarrow>
             if truthy packageId then
               (Inr [str_null packageId @ '':SimpleToken:SimpleToken'',
                     str_null packageId @ '':Escrow:Escrow'',
                     str_null packageId @ '':CollateralLock:CollateralLock''], s1)
             else (Inr [], s1))
      else (Inr tids, s))"

text \<open>What \<open>queryContracts\<close> does with the response to its query: \<open>Some\<close> is its outcome,
  \<open>None\<close> means that the fallback query for all contracts is sent.\<close>

definition on_query_response ::
    "contract result_body response \<Rightarrow> (error + contract result_body) option" where
  "on_query_response r =
     (case r of
        NetworkError m \<Rightarrow> Some (Inl (TypeError m))
      | Response ok txt js \<Rightarrow>
          if \<not> ok then
            (if includes_str txt ''templateIds'' \<or> includes_str txt ''Package ID''
                \<or> includes_str txt ''Cannot resolve''
             then None
             else Some (Inl (Error (''Query failed: '' @ txt))))
          else (case js of Inl m \<Rightarrow> Some (Inl (SyntaxError m)) | Inr b \<Rightarrow> Some (Inr b)))"

definition on_fallback_response ::
    "contract result_body response \<Rightarrow> error + contract result_body" where
  "on_fallback_response r =
     (case r of
        NetworkError m \<Rightarrow> Inl (TypeError m)
      | Response ok txt js \<Rightarrow>
          if ok then
            (case js of
               Inl m \<Rightarrow> Inl (SyntaxError m)
             | Inr allContracts \<Rightarrow> Inr (Some (filter template_filter (or_empty allContracts))))
          else Inr (Some []))"

definition queryContracts ::
    "env \<Rightarrow> string list \<Rightarrow> state \<Rightarrow> (error + contract result_body) \<times> state" where
  "queryContracts e tids s =
     (if \<not> truthy (token s) then (Inl (Error ''Not authenticated''), s)
      else
        (case finalTemplateIds e tids s of
           (Inl err, s1) \<Rightarrow> (Inl err, s1)
         | (Inr ftids, s1) \<Rightarrow>
             (case fetch (gw_query e) (query_request e (str_null (token s1)) ftids) s1 of
                (r, s2) \<Rightarrow>
                  (case on_query_response r of
                     Some out \<Rightarrow> (out, s2)
                   | None \<Rightarrow>
                       (case fetch (gw_query e) (query_request e (str_null (token s2)) []) s2 of
                          (r2, s3) \<Rightarrow> (on_fallback_response r2, s3))))))"

section \<open>createContract, createSimpleToken, exerciseChoice\<close>

definition create_request :: "env \<Rightarrow> string \<Rightarrow> string \<Rightarrow> jsobj \<Rightarrow> request" where
  "create_request e t tid pl =
     \<lparr>url = API_BASE_URL e @ ''/create'', http_method = ''POST'', headers = json_headers t,
      body = CreateBody tid pl\<rparr>"

definition exercise_request :: "env \<Rightarrow> string \<Rightarrow> string \<Rightarrow> string \<Rightarrow> jsobj \<Rightarrow> request" where
  "exercise_request e t cid choice arg =
     \<lparr>url = API_BASE_URL e @ ''/exercise'', http_method = ''POST'', headers = json_headers t,
      body = ExerciseBody cid choice arg\<rparr>"

definition createContract :: "env \<Rightarrow> string \<Rightarrow> jsobj \<Rightarrow> state \<Rightarrow> (error + string) \<times> state" where
  "createContract e tid pl s =
     (if \<not> truthy (token s) then (Inl (Error ''Not authenticated''), s)
      else
        (case fetch (gw_create e) (create_request e (str_null (token s)) tid pl) s of
           (NetworkError m, s1) \<Rightarrow> (Inl (TypeError m), s1)
         | (Response ok txt js, s1) \<Rightarrow>
             if \<not> ok then (Inl (Error (''Create failed: '' @ txt)), s1)
             else (case js of
                     Inl m \<Rightarrow> (Inl (SyntaxError m), s1)
                   | Inr created \<Rightarrow> (Inr created, s1))))"

definition exerciseChoice ::
    "env \<Rightarrow> string \<Rightarrow> string \<Rightarrow> jsobj \<Rightarrow> state \<Rightarrow> (error + string) \<times> state" where
  "exerciseChoice e cid choice arg s =
     (if \<not> truthy (token s) then (Inl (Error ''Not authenticated''), s)
      else
        (case fetch (gw_exercise e) (exercise_request e (str_null (token s)) cid choice arg) s of
           (NetworkError m, s1) \<Rightarrow> (Inl (TypeError m), s1)
         | (Response ok txt js, s1) \<Rightarrow>
             if \<not> ok then (Inl (Error (''Exercise failed: '' @ txt)), s1)
             else (case js of
                     Inl m \<Rightarrow> (Inl (SyntaxError m), s1)
                   | Inr exercised \<Rightarrow> (Inr exercised, s1))))"

definition is_resolution_error :: "error \<Rightarrow> bool" where
  "is_resolution_error err =
     (includes_str (message err) ''Cannot resolve''
      \<or> includes_str (message err) ''unknownTemplateIds'')"

definition token_payload :: "string \<Rightarrow> string \<Rightarrow> string \<Rightarrow> jsobj" where
  "token_payload issuer owner amount =
     [(''issuer'', issuer), (''owner'', owner), (''amount'', amount)]"

definition digit :: "nat \<Rightarrow> char" where
  "digit d = ''0123456789'' ! d"

function decimal :: "nat \<Rightarrow> string" where
  "decimal n = (if n < 10 then [digit n] else decimal (n div 10) @ [digit (n mod 10)])"
  by pat_completeness auto
termination
  by (relation "measure id") auto

definition tried_all :: "nat \<Rightarrow> error" where
  "tried_all n =
     Error (''Tried all '' @ decimal n
        @ '' packages but none contained SimpleToken template. ''
        @ ''The DAR file might not be uploaded correctly. ''
        @ ''Try running: daml ledger upload-dar --host localhost --port 6865 ''
        @ ''.daml/dist/hello-canton-0.0.1.dar'')"

text \<open>
  The loop \<open>for (let i = packageIds.length - 1; i >= 0; i--)\<close>. The counter of the model
  is \<open>i + 1\<close>: at \<open>Suc i\<close> the body runs with index \<open>i\<close>, at \<open>0\<close> the loop is left.
\<close>

fun try_all_packages ::
    "env \<Rightarrow> string list \<Rightarrow> jsobj \<Rightarrow> nat \<Rightarrow> state \<Rightarrow> (error + string) \<times> state" where
  "try_all_packages e packageIds pl 0 s = (Inl (tried_all (length packageIds)), s)"
| "try_all_packages e packageIds pl (Suc i) s =
     (case createContract e (simple_token_template (packageIds ! i)) pl s of
        (Inr created, s1) \<Rightarrow> (Inr created, cache_package (packageIds ! i) s1)
      | (Inl err, s1) \<Rightarrow>
          if is_resolution_error err then try_all_packages e packageIds pl i s1
          else (Inl err, s1))"

text \<open>The second half of \<open>createSimpleToken\<close>, entered with \<open>packageId\<close> null.\<close>

definition discover_and_create :: "env \<Rightarrow> jsobj \<Rightarrow> state \<Rightarrow> (error + string) \<times> state" where
  "discover_and_create e pl s =
     (case getPackages e s of
        (Inl err, s1) \<Rightarrow> (Inl err, s1)
      | (Inr packagesData, s1) \<Rightarrow>
          try_all_packages e (or_empty packagesData) pl (length (or_empty packagesData)) s1)"

text \<open>The first half: the create with the package id that \<open>findPackageId\<close> gave. \<open>Some\<close>
  is the outcome of \<open>createSimpleToken\<close>; \<open>None\<close> means that \<open>packageId\<close> is null when
  the second half is reached.\<close>

definition create_with_found ::
    "env \<Rightarrow> string option \<Rightarrow> jsobj \<Rightarrow> state \<Rightarrow> (error + string) option \<times> state" where
  "create_with_found e packageId pl s =
     (if truthy packageId then
        (case createContract e (simple_token_template (str_null packageId)) pl s of
           (Inr created, s1) \<Rightarrow> (Some (Inr created), s1)
         | (Inl err, s1) \<Rightarrow>
             if is_resolution_error err
             then (None, s1\<lparr>localStorage := (localStorage s1)(''daml_package_id'' := None)\<rparr>)
             else (Some (Inl err), s1))
      else (None, s))"

text \<open>\<open>amount\<close> stands for the string \<open>amount.toString()\<close>.\<close>

definition createSimpleToken ::
    "env \<Rightarrow> string \<Rightarrow> string \<Rightarrow> string \<Rightarrow> state \<Rightarrow> (error + string) \<times> state" where
  "createSimpleToken e issuer owner amount s =
     (if \<not> truthy (token s) then (Inl (Error ''Not authenticated''), s)
      else
        (case findPackageId e s of
           (Inl err, s1) \<Rightarrow> (Inl err, s1)
         | (Inr packageId, s1) \<Rightarrow>
             (case create_with_found e packageId (token_payload issuer owner amount) s1 of
                (Some out, s2) \<Rightarrow> (out, s2)
              | (None, s2) \<Rightarrow> discover_and_create e (token_payload issuer owner amount) s2)))"

section \<open>The package discovery of createSimpleToken, as the specification words it\<close>

text \<open>
  The candidates are given in the order in which they are tried. Each is tried with a
  create of \<open><candidate>:SimpleToken:SimpleToken\<close>; the first create that succeeds is the
  result and its candidate is cached; the next candidate is tried only after a
  template-resolution error; any other error is thrown again at once; when no candidate is
  left the error \<open>Tried all n packages ...\<close> is thrown.
\<close>

fun spec_try_candidates ::
    "env \<Rightarrow> string list \<Rightarrow> jsobj \<Rightarrow> nat \<Rightarrow> state \<Rightarrow> (error + string) \<times> state" where
  "spec_try_candidates e [] pl n s = (Inl (tried_all n), s)"
| "spec_try_candidates e (c # cs) pl n s =
     (case createContract e (c @ '':SimpleToken:SimpleToken'') pl s of
        (Inr created, s1) \<Rightarrow>
          (Inr created, s1\<lparr>localStorage := (localStorage s1)(''daml_package_id'' \<mapsto> c)\<rparr>)
      | (Inl err, s1) \<Rightarrow>
          if includes_str (message err) ''Cannot resolve''
             \<or> includes_str (message err) ''unknownTemplateIds''
          then spec_try_candidates e cs pl n s1
          else (Inl err, s1))"

section \<open>The operations of the client, as one type\<close>

datatype api_op =
    Login string
  | Logout
  | GetPackages
  | FindPackageId
  | QueryContracts "string list"
  | CreateContract string jsobj
  | CreateSimpleToken string string string
  | ExerciseChoice string string jsobj

text \<open>\<open>thrown r\<close> is the error an operation ended with, if it threw.\<close>

fun thrown :: "(error + 'a) \<times> state \<Rightarrow> error option \<times> state" where
  "thrown (Inl err, s) = (Some err, s)"
| "thrown (Inr v, s) = (None, s)"

fun run_op :: "env \<Rightarrow> api_op \<Rightarrow> state \<Rightarrow> error option \<times> state" where
  "run_op e (Login uid) s = thrown (login e uid s)"
| "run_op e Logout s = (None, logout s)"
| "run_op e GetPackages s = thrown (getPackages e s)"
| "run_op e FindPackageId s = thrown (findPackageId e s)"
| "run_op e (QueryContracts tids) s = thrown (queryContracts e tids s)"
| "run_op e (CreateContract tid pl) s = thrown (createContract e tid pl s)"
| "run_op e (CreateSimpleToken issuer owner amount) s =
     thrown (createSimpleToken e issuer owner amount s)"
| "run_op e (ExerciseChoice cid choice arg) s = thrown (exerciseChoice e cid choice arg s)"

text \<open>The operations that the client guards with \<open>if (!this.token)\<close>.\<close>

fun ledger_op :: "api_op \<Rightarrow> bool" where
  "ledger_op (QueryContracts tids) = True"
| "ledger_op (CreateContract tid pl) = True"
| "ledger_op (ExerciseChoice cid choice arg) = True"
| "ledger_op GetPackages = True"
| "ledger_op (CreateSimpleToken issuer owner amount) = True"
| "ledger_op other = False"

fun is_createSimpleToken :: "api_op \<Rightarrow> bool" where
  "is_createSimpleToken (CreateSimpleToken issuer owner amount) = True"
| "is_createSimpleToken other = False"

definition session_keys :: "string set" where
  "session_keys = {''daml_token'', ''daml_user_id'', ''daml_party_identifier''}"

section \<open>The earlier copy of the client\<close>

text \<open>
  The repository holds an earlier copy of the client. Its base URL is a constant;
  \<open>login\<close> posts the user id to \<open>/auth/login\<close> and takes the token from the answer;
  \<open>queryContracts\<close> has no package lookup and no fallback; \<open>createContract\<close> and
  \<open>exerciseChoice\<close> read as in the later copy.
\<close>

definition legacy_base :: string where
  "legacy_base = ''http://localhost:7575/v1''"

definition legacy_env :: "env \<Rightarrow> env" where
  "legacy_env e = e\<lparr>REACT_APP_API_URL := Some legacy_base\<rparr>"

definition login_request :: "string \<Rightarrow> request" where
  "login_request uid =
     \<lparr>url = legacy_base @ ''/auth/login'', http_method = ''POST'',
      headers = [(''Content-Type'', ''application/json'')], body = LoginBody uid\<rparr>"

definition legacy_login ::
    "(request list \<Rightarrow> request \<Rightarrow> string option response) \<Rightarrow> string \<Rightarrow> state
     \<Rightarrow> (error + string option) \<times> state" where
  "legacy_login gw uid s =
     (case fetch gw (login_request uid) s of
        (NetworkError m, s1) \<Rightarrow> (Inl (TypeError m), s1)
      | (Response ok txt js, s1) \<Rightarrow>
          if \<not> ok then (Inl (Error (''Login failed: '' @ txt)), s1)
          else
            (case js of
               Inl m \<Rightarrow> (Inl (SyntaxError m), s1)
             | Inr data_token \<Rightarrow>
                 (Inr data_token,
                  s1\<lparr>token := data_token, userId := Some uid,
                     localStorage := (localStorage s1)
                       (''daml_token'' \<mapsto> str_undefined data_token,
                        ''daml_user_id'' \<mapsto> uid)\<rparr>)))"

definition legacy_logout :: "state \<Rightarrow> state" where
  "legacy_logout s =
     s\<lparr>token := None, userId := None,
       localStorage := (localStorage s)(''daml_token'' := None, ''daml_user_id'' := None)\<rparr>"

definition legacy_queryContracts ::
    "env \<Rightarrow> string list \<Rightarrow> state \<Rightarrow> (error + contract result_body) \<times> state" where
  "legacy_queryContracts e tids s =
     (if \<not> truthy (token s) then (Inl (Error ''Not authenticated''), s)
      else
        (case fetch (gw_query e) (query_request (legacy_env e) (str_null (token s)) tids) s of
           (NetworkError m, s1) \<Rightarrow> (Inl (TypeError m), s1)
         | (Response ok txt js, s1) \<Rightarrow>
             if \<not> ok then (Inl (Error (''Query failed: '' @ txt)), s1)
             else (case js of
                     Inl m \<Rightarrow> (Inl (SyntaxError m), s1)
                   | Inr b \<Rightarrow> (Inr b, s1))))"

datatype legacy_op =
    LegacyLogin string
  | LegacyLogout
  | LegacyQuery "string list"
  | LegacyCreate string jsobj
  | LegacyExercise string string jsobj

fun run_legacy ::
    "(request list \<Rightarrow> request \<Rightarrow> string option response) \<Rightarrow> env \<Rightarrow> legacy_op \<Rightarrow> state
     \<Rightarrow> error option \<times> state" where
  "run_legacy gw e (LegacyLogin uid) s = thrown (legacy_login gw uid s)"
| "run_legacy gw e LegacyLogout s = (None, legacy_logout s)"
| "run_legacy gw e (LegacyQuery tids) s = thrown (legacy_queryContracts e tids s)"
| "run_legacy gw e (LegacyCreate tid pl) s = thrown (createContract (legacy_env e) tid pl s)"
| "run_legacy gw e (LegacyExercise cid choice arg) s =
     thrown (exerciseChoice (legacy_env e) cid choice arg s)"

section \<open>The dashboard: fetchAllContracts\<close>

text \<open>The state of the component \<open>App\<close>.\<close>

record view =
  user :: "string option"
  loading :: bool
  view_error :: "string option"
  simpleTokens :: "contract list"
  escrows :: "contract list"
  collateralLocks :: "contract list"

text \<open>
  \<open>fetchAllContracts\<close> starts three calls of \<open>queryContracts\<close> and awaits them with
  \<open>Promise.all\<close>. A call in flight is suspended at an \<open>await fetch(...)\<close>: at its query
  (\<open>AwaitQuery\<close>) or at its fallback query for all contracts (\<open>AwaitFallback\<close>), in each
  case with the response that the gateway gave to the request; or it has settled, with
  the value it returned or the error it threw.
\<close>

datatype promise =
    AwaitQuery "contract result_body response"
  | AwaitFallback "contract result_body response"
  | Settled "error + contract result_body"

text \<open>\<open>queryContracts\<close> up to its first \<open>await fetch\<close>; the package lookup of a call without
  template ids is run as one step.\<close>

definition qc_start :: "env \<Rightarrow> string list \<Rightarrow> state \<Rightarrow> promise \<times> state" where
  "qc_start e tids s =
     (if \<not> truthy (token s) then (Settled (Inl (Error ''Not authenticated'')), s)
      else
        (case finalTemplateIds e tids s of
           (Inl err, s1) \<Rightarrow> (Settled (Inl err), s1)
         | (Inr ftids, s1) \<Rightarrow>
             (case fetch (gw_query e) (query_request e (str_null (token s1)) ftids) s1 of
                (r, s2) \<Rightarrow> (AwaitQuery r, s2))))"

text \<open>\<open>queryContracts\<close> from the arrival of a response to its next \<open>await fetch\<close> or its end.\<close>

definition qc_resume :: "env \<Rightarrow> promise \<Rightarrow> state \<Rightarrow> promise \<times> state" where
  "qc_resume e p s =
     (case p of
        AwaitQuery r \<Rightarrow>
          (case on_query_response r of
             Some out \<Rightarrow> (Settled out, s)
           | None \<Rightarrow>
               (case fetch (gw_query e) (query_request e (str_null (token s)) []) s of
                  (r2, s1) \<Rightarrow> (AwaitFallback r2, s1)))
      | AwaitFallback r2 \<Rightarrow> (Settled (on_fallback_response r2), s)
      | Settled out \<Rightarrow> (Settled out, s))"

fun settled :: "promise \<Rightarrow> bool" where
  "settled (Settled out) = True"
| "settled p = False"

fun outcome_of :: "promise \<Rightarrow> (error + contract result_body) option" where
  "outcome_of (Settled out) = Some out"
| "outcome_of p = None"

text \<open>\<open>.catch(() => ({ result: [] }))\<close>, followed by \<open>.result || []\<close>.\<close>

fun catch_default :: "error + contract result_body \<Rightarrow> contract result_body" where
  "catch_default (Inl err) = Some []"
| "catch_default (Inr b) = b"

definition collection :: "error + contract result_body \<Rightarrow> contract list" where
  "collection out = or_empty (catch_default out)"

text \<open>The three calls, the client state and the state of the component.\<close>

record fetching =
  promises :: "promise list"
  api :: state
  ui :: view

definition fetchAll_start :: "env \<Rightarrow> state \<Rightarrow> view \<Rightarrow> fetching" where
  "fetchAll_start e s v =
     (case qc_start e [''SimpleToken:SimpleToken''] s of
        (p0, s0) \<Rightarrow>
          (case qc_start e [''Escrow:Escrow''] s0 of
             (p1, s1) \<Rightarrow>
               (case qc_start e [''CollateralLock:CollateralLock''] s1 of
                  (p2, s2) \<Rightarrow>
                    \<lparr>promises = [p0, p1, p2], api = s2,
                     ui = v\<lparr>loading := True, view_error := None\<rparr>\<rparr>)))"

text \<open>The continuation after \<open>await Promise.all([...])\<close>, with the \<open>finally\<close> block: it
  runs once all three calls have settled.\<close>

definition after_all :: "promise list \<Rightarrow> view \<Rightarrow> view" where
  "after_all ps v =
     (case those (map outcome_of ps) of
        Some [tokensResult, escrowsResult, locksResult] \<Rightarrow>
          v\<lparr>simpleTokens := collection tokensResult,
            escrows := collection escrowsResult,
            collateralLocks := collection locksResult,
            loading := False\<rparr>
      | other \<Rightarrow> v)"

text \<open>The response awaited by call \<open>i\<close> arrives: the call runs to its next \<open>await\<close> or
  settles, and if it was the last to settle the continuation runs.\<close>

definition deliver :: "env \<Rightarrow> nat \<Rightarrow> fetching \<Rightarrow> fetching" where
  "deliver e i st =
     (if i < length (promises st) \<and> \<not> settled (promises st ! i) then
        (case qc_resume e (promises st ! i) (api st) of
           (p, s1) \<Rightarrow>
             st\<lparr>promises := (promises st)[i := p], api := s1,
                ui := after_all ((promises st)[i := p]) (ui st)\<rparr>)
      else st)"

text \<open>A schedule is the order in which the awaited responses arrive, each named by the
  index of its call.\<close>

fun run :: "env \<Rightarrow> nat list \<Rightarrow> fetching \<Rightarrow> fetching" where
  "run e [] st = st"
| "run e (i # sch) st = run e sch (deliver e i st)"

text \<open>\<open>None\<close>: under the schedule some call is still pending, \<open>fetchAllContracts\<close> has not
  returned.\<close>

definition fetchAllContracts :: "env \<Rightarrow> nat list \<Rightarrow> state \<Rightarrow> view \<Rightarrow> (state \<times> view) option" where
  "fetchAllContracts e sch s v =
     (if \<not> isAuthenticated s then Some (s, v)
      else
        (let st = run e sch (fetchAll_start e s v) in
         if list_all settled (promises st) then Some (api st, ui st) else None))"



section \<open>Predicates and invariants of the proofs\<close>

text \<open>\<open>sends P s s'\<close>: from \<open>s\<close> to \<open>s'\<close> requests were only added, each satisfying \<open>P\<close>.\<close>

definition sends :: "(request \<Rightarrow> bool) \<Rightarrow> state \<Rightarrow> state \<Rightarrow> bool" where
  "sends P s s' = (\<exists>new. sent s' = sent s @ new \<and> list_all P new)"

definition new_requests :: "state \<Rightarrow> state \<Rightarrow> request list" where
  "new_requests s s' = drop (length (sent s)) (sent s')"

definition authorization :: "request \<Rightarrow> string option" where
  "authorization r = map_of (headers r) ''Authorization''"

definition gateway_paths :: "string list" where
  "gateway_paths = [''/parties'', ''/query'', ''/create'', ''/exercise'']"

definition all_paths :: "string list" where
  "all_paths = [''/parties'', ''/query'', ''/create'', ''/exercise'', ''/packages'']"

definition known_path :: "env \<Rightarrow> request \<Rightarrow> bool" where
  "known_path e r = (url r \<in> set (map ((@) (API_BASE_URL e)) all_paths))"

definition client_request :: "env \<Rightarrow> string \<Rightarrow> request \<Rightarrow> bool" where
  "client_request e t r =
     (url r \<in> set (map ((@) (API_BASE_URL e)) all_paths)
      \<and> authorization r = Some (''Bearer '' @ t))"

text \<open>\<open>step_ok e s s'\<close>: the fields of the object are the same, localStorage differs at
  most at \<open>daml_package_id\<close>, and the requests added carry the token of \<open>s\<close>.\<close>

definition step_ok :: "env \<Rightarrow> state \<Rightarrow> state \<Rightarrow> bool" where
  "step_ok e s s' =
     (token s' = token s \<and> userId s' = userId s \<and> partyIdentifier s' = partyIdentifier s
      \<and> (\<forall>k. k \<noteq> ''daml_package_id'' \<longrightarrow> localStorage s' k = localStorage s k)
      \<and> sends (client_request e (str_null (token s))) s s')"

definition keeps_package :: "state \<Rightarrow> state \<Rightarrow> bool" where
  "keeps_package s s' =
     (localStorage s ''daml_package_id'' \<noteq> None \<longrightarrow> localStorage s' ''daml_package_id'' \<noteq> None)"

text \<open>\<open>answers e s tid out\<close>: \<open>out\<close> is what \<open>queryContracts\<close> makes of the gateway's answers
  to the query for \<open>tid\<close> and, where it is sent, to the fallback query.\<close>

definition answers :: "env \<Rightarrow> state \<Rightarrow> string \<Rightarrow> error + contract result_body \<Rightarrow> bool" where
  "answers e s tid out =
     (\<exists>h. on_query_response (gw_query e h (query_request e (str_null (token s)) [tid]))
            = Some out
          \<or> (on_query_response (gw_query e h (query_request e (str_null (token s)) [tid]))
                = None
              \<and> (\<exists>h2. out = on_fallback_response (gw_query e h2 (all_contracts_request e s)))))"

definition query_requests :: "env \<Rightarrow> state \<Rightarrow> request list" where
  "query_requests e s =
     [query_request e (str_null (token s)) [''SimpleToken:SimpleToken''],
      query_request e (str_null (token s)) [''Escrow:Escrow''],
      query_request e (str_null (token s)) [''CollateralLock:CollateralLock'']]"

definition same_collections :: "view \<Rightarrow> view \<Rightarrow> bool" where
  "same_collections v w =
     (simpleTokens v = simpleTokens w \<and> escrows v = escrows w
      \<and> collateralLocks v = collateralLocks w)"

text \<open>What is known of a call in flight for the template id \<open>tid\<close>.\<close>

definition promise_inv :: "env \<Rightarrow> state \<Rightarrow> string \<Rightarrow> promise \<Rightarrow> bool" where
  "promise_inv e s tid p =
     (case p of
        AwaitQuery r \<Rightarrow> (\<exists>h. r = gw_query e h (query_request e (str_null (token s)) [tid]))
      | AwaitFallback r2 \<Rightarrow>
          (\<exists>h. on_query_response (gw_query e h (query_request e (str_null (token s)) [tid])) = None)
          \<and> (\<exists>h2. r2 = gw_query e h2 (all_contracts_request e s))
      | Settled out \<Rightarrow> answers e s tid out)"

fun advanced :: "promise \<Rightarrow> bool" where
  "advanced (AwaitQuery r) = False"
| "advanced p = True"

definition fetching_inv :: "env \<Rightarrow> state \<Rightarrow> view \<Rightarrow> fetching \<Rightarrow> bool" where
  "fetching_inv e s v st =
     (\<exists>a b c k.
        promises st = [a, b, c]
        \<and> promise_inv e s ''SimpleToken:SimpleToken'' a
        \<and> promise_inv e s ''Escrow:Escrow'' b
        \<and> promise_inv e s ''CollateralLock:CollateralLock'' c
        \<and> token (api st) = token s \<and> userId (api st) = userId s
        \<and> partyIdentifier (api st) = partyIdentifier s
        \<and> localStorage (api st) = localStorage s
        \<and> sent (api st) = sent s @ query_requests e s @ replicate k (all_contracts_request e s)
        \<and> k \<le> of_bool (advanced a) + of_bool (advanced b) + of_bool (advanced c)
        \<and> ui st = after_all [a, b, c] (v\<lparr>loading := True, view_error := None\<rparr>))"

fun stage :: "promise \<Rightarrow> nat" where
  "stage (AwaitQuery r) = 0"
| "stage (AwaitFallback r) = 1"
| "stage (Settled out) = 2"

definition legacy_paths :: "string list" where
  "legacy_paths = [''/auth/login'', ''/query'', ''/create'', ''/exercise'']"

definition legacy_path :: "request \<Rightarrow> bool" where
  "legacy_path r = (url r \<in> set (map ((@) legacy_base) legacy_paths))"












section \<open>Concrete gateways and states\<close>

definition test_env ::
    "(request \<Rightarrow> party result_body response) \<Rightarrow> (request \<Rightarrow> string result_body response)
     \<Rightarrow> (request \<Rightarrow> contract result_body response) \<Rightarrow> (request \<Rightarrow> string response) \<Rightarrow> env" where
  "test_env pa pk q c =
     \<lparr>REACT_APP_API_URL = None,
      gw_parties = (\<lambda>h. pa), gw_packages = (\<lambda>h. pk), gw_query = (\<lambda>h. q),
      gw_create = (\<lambda>h. c), gw_exercise = (\<lambda>h r. NetworkError ''Failed to fetch''),
      btoa_payload = (\<lambda>u p t. Some ''e30''), clock = (\<lambda>h. 0)\<rparr>"

definition unreachable :: "request \<Rightarrow> 'a response" where
  "unreachable r = NetworkError ''Failed to fetch''"

definition env_down :: env where
  "env_down = test_env unreachable unreachable unreachable unreachable"

definition alice_party :: party where
  "alice_party = \<lparr>displayName = Some ''Alice'', party_identifier = Some ''Alice::1220''\<rparr>"

text \<open>A gateway that knows Alice, lists the packages \<open>p1\<close> and \<open>p2\<close>, resolves no template
  in a query and creates a contract only with a template of \<open>p1\<close>.\<close>

definition create_only_p1 :: "request \<Rightarrow> string response" where
  "create_only_p1 r =
     (case body r of
        CreateBody tid pl \<Rightarrow>
          if tid = ''p1:SimpleToken:SimpleToken'' then Response True ''{}'' (Inr ''{}'')
          else Response False ''Cannot resolve template'' (Inl ''Unexpected token'')
      | other \<Rightarrow> NetworkError ''Failed to fetch'')"

definition env_alice :: env where
  "env_alice =
     test_env (\<lambda>r. Response True [] (Inr (Some [alice_party])))
       (\<lambda>r. Response True [] (Inr (Some [''p1'', ''p2''])))
       (\<lambda>r. Response False ''Cannot resolve template'' (Inl ''Unexpected token''))
       create_only_p1"

definition env_no_template :: env where
  "env_no_template =
     test_env (\<lambda>r. Response True [] (Inr (Some [alice_party])))
       (\<lambda>r. Response True [] (Inr (Some [''p1'', ''p2''])))
       (\<lambda>r. Response False ''Cannot resolve template'' (Inl ''Unexpected token''))
       (\<lambda>r. Response False ''Cannot resolve template'' (Inl ''Unexpected token''))"

definition fresh :: state where
  "fresh = constructor Map.empty []"

definition signed_in :: state where
  "signed_in =
     constructor
       (map_of [(''daml_token'', ''tok''), (''daml_user_id'', ''alice''),
                (''daml_party_identifier'', ''Alice::1220'')]) []"

definition signed_in_stale :: state where
  "signed_in_stale =
     constructor
       (map_of [(''daml_token'', ''tok''), (''daml_user_id'', ''alice''),
                (''daml_party_identifier'', ''Alice::1220''),
                (''daml_package_id'', ''stale'')]) []"

definition env_rejects_jwt :: env where
  "env_rejects_jwt =
     test_env
       (\<lambda>r. if authorization r = Some ''Bearer alice''
            then Response True [] (Inr (Some [alice_party]))
            else Response False ''invalid token'' (Inl ''Unexpected token''))
       unreachable unreachable unreachable"

text \<open>A gateway that lists the packages \<open>p1\<close> and \<open>p2\<close> and answers every query with a
  response that is not OK and names no template.\<close>

definition env_unauthorized :: env where
  "env_unauthorized =
     test_env (\<lambda>r. Response True [] (Inr (Some [alice_party])))
       (\<lambda>r. Response True [] (Inr (Some [''p1'', ''p2''])))
       (\<lambda>r. Response False ''Unauthorized'' (Inl ''Unexpected token''))
       unreachable"

definition alice_payload :: jsobj where
  "alice_payload = token_payload ''Alice::1220'' ''Bob::1220'' ''10''"

definition stale_tried :: state where
  "stale_tried =
     signed_in_stale\<lparr>sent :=
       [create_request env_alice ''tok'' ''stale:SimpleToken:SimpleToken'' alice_payload]\<rparr>"

definition stale_cleared :: state where
  "stale_cleared =
     stale_tried\<lparr>localStorage := (localStorage stale_tried)(''daml_package_id'' := None)\<rparr>"

definition packages_listed :: state where
  "packages_listed =
     stale_cleared\<lparr>sent := sent stale_cleared @ [packages_request env_alice ''tok'']\<rparr>"

definition token_created :: state where
  "token_created =
     packages_listed\<lparr>localStorage := (localStorage packages_listed)(''daml_package_id'' \<mapsto> ''p1''),
       sent := sent packages_listed
         @ [create_request env_alice ''tok'' ''p2:SimpleToken:SimpleToken'' alice_payload,
            create_request env_alice ''tok'' ''p1:SimpleToken:SimpleToken'' alice_payload]\<rparr>"

definition alice_token :: contract where
  "alice_token =
     \<lparr>contractId = ''#1:0'', templateId = Some ''p1:SimpleToken:SimpleToken'',
      payload = [(''issuer'', ''Alice::1220''), (''owner'', ''Bob::1220''), (''amount'', ''10'')]\<rparr>"

definition old_escrow :: contract where
  "old_escrow =
     \<lparr>contractId = ''#0:0'', templateId = Some ''p1:Escrow:Escrow'', payload = []\<rparr>"

text \<open>The dashboard of Alice after an earlier fetch that found one escrow.\<close>

definition old_view :: view where
  "old_view =
     \<lparr>user = Some ''alice'', loading = False, view_error = None, simpleTokens = [],
      escrows = [old_escrow], collateralLocks = []\<rparr>"

text \<open>A gateway that answers the \<open>SimpleToken\<close> query with one contract, rejects the
  fetch of the \<open>Escrow\<close> query and answers every other query with an error that names no
  template.\<close>

definition env_mixed :: env where
  "env_mixed =
     test_env unreachable unreachable
       (\<lambda>r. if body r = QueryBody [''SimpleToken:SimpleToken'']
            then Response True [] (Inr (Some [alice_token]))
            else if body r = QueryBody [''Escrow:Escrow'']
            then NetworkError ''Failed to fetch''
            else Response False ''Service unavailable'' (Inl ''Unexpected token''))
       unreachable"


section \<open>Properties\<close>

subsection \<open>Frames of the operations\<close>

lemma sends_refl: "sends P s s"
  by (simp add: sends_def)

lemma sends_trans: "sends P s s1 \<Longrightarrow> sends P s1 s2 \<Longrightarrow> sends P s s2"
  by (auto simp: sends_def)

lemma sends_mono: "sends P s s' \<Longrightarrow> (\<And>r. P r \<Longrightarrow> Q r) \<Longrightarrow> sends Q s s'"
  by (auto simp: sends_def list_all_iff)

lemma step_ok_refl: "step_ok e s s"
  by (simp add: step_ok_def sends_refl)

lemma step_ok_trans: "step_ok e s s1 \<Longrightarrow> step_ok e s1 s2 \<Longrightarrow> step_ok e s s2"
  unfolding step_ok_def by (auto intro: sends_trans)

lemma keeps_package_refl: "keeps_package s s"
  by (simp add: keeps_package_def)

lemma keeps_package_trans: "keeps_package s s1 \<Longrightarrow> keeps_package s1 s2 \<Longrightarrow> keeps_package s s2"
  by (auto simp: keeps_package_def)

lemma step_ok_fetch:
  "fetch gw r s = (x, s') \<Longrightarrow> client_request e (str_null (token s)) r \<Longrightarrow> step_ok e s s' \<and> localStorage s' = localStorage s"
  by (auto simp: fetch_def step_ok_def sends_def)

lemma cr_packages: "client_request e t (packages_request e t)"
  by (simp add: client_request_def packages_request_def all_paths_def authorization_def bearer_def)

lemma cr_query: "client_request e t (query_request e t tids)"
  by (simp add: client_request_def query_request_def all_paths_def authorization_def bearer_def json_headers_def)

lemma cr_create: "client_request e t (create_request e t tid pl)"
  by (simp add: client_request_def create_request_def all_paths_def authorization_def bearer_def json_headers_def)

lemma cr_exercise: "client_request e t (exercise_request e t c ch a)"
  by (simp add: client_request_def exercise_request_def all_paths_def authorization_def bearer_def json_headers_def)

lemma getPackages_ok:
  "getPackages e s = (out, s') \<Longrightarrow> step_ok e s s' \<and> localStorage s' = localStorage s"
  by (auto simp: getPackages_def step_ok_refl split: if_splits prod.splits response.splits sum.splits
      dest!: step_ok_fetch[where e=e, OF _ cr_packages])

lemma createContract_ok:
  "createContract e tid pl s = (out, s') \<Longrightarrow> step_ok e s s' \<and> localStorage s' = localStorage s"
  by (auto simp: createContract_def step_ok_refl split: if_splits prod.splits response.splits sum.splits
      dest!: step_ok_fetch[where e=e, OF _ cr_create])

lemma exerciseChoice_ok:
  "exerciseChoice e c ch a s = (out, s') \<Longrightarrow> step_ok e s s' \<and> localStorage s' = localStorage s"
  by (auto simp: exerciseChoice_def step_ok_refl split: if_splits prod.splits response.splits sum.splits
      dest!: step_ok_fetch[where e=e, OF _ cr_exercise])

lemma step_ok_cache: "step_ok e s s' \<Longrightarrow> step_ok e s (cache_package p s')"
  by (auto simp: step_ok_def cache_package_def sends_def)

lemma keeps_cache: "keeps_package s (cache_package p s')"
  by (auto simp: keeps_package_def cache_package_def)

lemma keeps_same: "localStorage s' = localStorage s \<Longrightarrow> keeps_package s s'"
  by (auto simp: keeps_package_def)

lemma probe_packages_ok:
  "probe_packages e ps s = (r, s') \<Longrightarrow> step_ok e s s' \<and> keeps_package s s'"
proof (induction ps arbitrary: s)
  case Nil
  then show ?case by (simp add: step_ok_refl keeps_package_refl)
next
  case (Cons p ps)
  obtain x s1 where f: "fetch (gw_query e) (query_request e (str_null (token s)) [simple_token_template p]) s = (x, s1)"
    by force
  from step_ok_fetch[OF f cr_query] have a: "step_ok e s s1" and b: "localStorage s1 = localStorage s"
    by auto
  show ?case
  proof (cases x)
    case (NetworkError m)
    with Cons.prems f have "probe_packages e ps s1 = (r, s')" by simp
    from Cons.IH[OF this] a b show ?thesis
      by (auto intro: step_ok_trans keeps_package_trans keeps_same)
  next
    case (Response ok tx js)
    show ?thesis
    proof (cases "ok \<or> (\<not> includes_str tx ''Cannot resolve'' \<and> \<not> includes_str tx ''unknownTemplateIds'')")
      case True
      with Cons.prems f Response have "s' = cache_package p s1" by auto
      with a show ?thesis by (simp add: step_ok_cache keeps_cache)
    next
      case False
      with Cons.prems f Response have "probe_packages e ps s1 = (r, s')" by auto
      from Cons.IH[OF this] a b show ?thesis
        by (auto intro: step_ok_trans keeps_package_trans keeps_same)
    qed
  qed
qed

lemma findPackageId_try_ok:
  assumes "findPackageId_try e s = (r, s')"
  shows "step_ok e s s' \<and> keeps_package s s'"
proof -
  obtain x s1 where f: "fetch (gw_query e) (query_request e (str_null (token s)) []) s = (x, s1)"
    by force
  from step_ok_fetch[OF f cr_query] have a: "step_ok e s s1" and b: "keeps_package s s1"
    by (auto intro: keeps_same)
  have "step_ok e s1 s' \<and> keeps_package s1 s'"
    using assms f
    by (auto simp: findPackageId_try_def step_ok_refl keeps_package_refl step_ok_cache keeps_cache
        split: response.splits sum.splits option.splits if_splits prod.splits
        dest!: getPackages_ok probe_packages_ok
        intro: step_ok_trans keeps_package_trans keeps_same)
  with a b show ?thesis
    by (blast intro: step_ok_trans keeps_package_trans)
qed

lemma findPackageId_ok:
  "findPackageId e s = (r, s') \<Longrightarrow> step_ok e s s' \<and> keeps_package s s'"
  by (auto simp: findPackageId_def step_ok_refl keeps_package_refl
      split: if_splits prod.splits sum.splits dest: findPackageId_try_ok)

lemma finalTemplateIds_ok:
  "finalTemplateIds e tids s = (r, s') \<Longrightarrow> step_ok e s s' \<and> keeps_package s s'"
  by (auto simp: finalTemplateIds_def step_ok_refl keeps_package_refl
      split: if_splits prod.splits sum.splits dest: findPackageId_ok)

lemma step_ok_token: "step_ok e s s' \<Longrightarrow> token s' = token s"
  by (simp add: step_ok_def)

lemma queryContracts_ok:
  assumes "queryContracts e tids s = (r, s')"
  shows "step_ok e s s' \<and> keeps_package s s'"
proof (cases "truthy (token s)")
  case False
  with assms show ?thesis by (simp add: queryContracts_def step_ok_refl keeps_package_refl)
next
  case True
  obtain o1 s1 where f1: "finalTemplateIds e tids s = (o1, s1)" by force
  from finalTemplateIds_ok[OF f1] have a: "step_ok e s s1" "keeps_package s s1" by auto
  show ?thesis
  proof (cases o1)
    case (Inl err)
    with assms True f1 a show ?thesis by (simp add: queryContracts_def)
  next
    case (Inr ftids)
    obtain x s2 where f2: "fetch (gw_query e) (query_request e (str_null (token s1)) ftids) s1 = (x, s2)"
      by force
    from step_ok_fetch[OF f2 cr_query] have b: "step_ok e s1 s2" "keeps_package s1 s2"
      by (auto intro: keeps_same)
    obtain y s3 where f3: "fetch (gw_query e) (query_request e (str_null (token s2)) []) s2 = (y, s3)"
      by force
    from step_ok_fetch[OF f3 cr_query] have c: "step_ok e s2 s3" "keeps_package s2 s3"
      by (auto intro: keeps_same)
    from assms True f1 Inr f2 f3 have "s' = s2 \<or> s' = s3"
      by (auto simp: queryContracts_def split: option.splits)
    with a b c show ?thesis
      by (blast intro: step_ok_trans keeps_package_trans)
  qed
qed

lemma try_all_packages_ok:
  "try_all_packages e pkgs pl n s = (r, s') \<Longrightarrow> step_ok e s s'"
proof (induction n arbitrary: s)
  case 0
  then show ?case by (simp add: step_ok_refl)
next
  case (Suc i)
  obtain x s1 where f: "createContract e (simple_token_template (pkgs ! i)) pl s = (x, s1)"
    by force
  from createContract_ok[OF f] have a: "step_ok e s s1" by simp
  show ?case
  proof (cases x)
    case (Inr created)
    with Suc.prems f have "s' = cache_package (pkgs ! i) s1" by auto
    with a show ?thesis by (simp add: step_ok_cache)
  next
    case (Inl err)
    show ?thesis
    proof (cases "is_resolution_error err")
      case True
      with Suc.prems f Inl have "try_all_packages e pkgs pl i s1 = (r, s')" by simp
      from Suc.IH[OF this] a show ?thesis by (blast intro: step_ok_trans)
    next
      case False
      with Suc.prems f Inl a show ?thesis by auto
    qed
  qed
qed

lemma discover_and_create_ok:
  "discover_and_create e pl s = (r, s') \<Longrightarrow> step_ok e s s'"
  by (auto simp: discover_and_create_def split: prod.splits sum.splits
      dest!: getPackages_ok try_all_packages_ok intro: step_ok_trans)

lemma step_ok_uncache:
  "step_ok e s s' \<Longrightarrow> step_ok e s (s'\<lparr>localStorage := (localStorage s')(''daml_package_id'' := None)\<rparr>)"
  by (auto simp: step_ok_def sends_def)

lemma create_with_found_ok:
  "create_with_found e pk pl s = (r, s') \<Longrightarrow> step_ok e s s'"
  by (auto simp: create_with_found_def step_ok_refl split: if_splits prod.splits sum.splits
      dest!: createContract_ok intro: step_ok_uncache)

lemma createSimpleToken_ok:
  assumes "createSimpleToken e issuer owner amount s = (r, s')"
  shows "step_ok e s s'"
proof (cases "truthy (token s)")
  case False
  with assms show ?thesis by (simp add: createSimpleToken_def step_ok_refl)
next
  case True
  obtain o1 s1 where f1: "findPackageId e s = (o1, s1)" by force
  from findPackageId_ok[OF f1] have a: "step_ok e s s1" by simp
  show ?thesis
  proof (cases o1)
    case (Inl err)
    with assms True f1 a show ?thesis by (simp add: createSimpleToken_def)
  next
    case (Inr pk)
    obtain o2 s2 where f2: "create_with_found e pk (token_payload issuer owner amount) s1 = (o2, s2)"
      by force
    from create_with_found_ok[OF f2] have b: "step_ok e s1 s2" .
    show ?thesis
    proof (cases o2)
      case (Some out)
      with assms True f1 Inr f2 have "s' = s2" by (simp add: createSimpleToken_def)
      with a b show ?thesis by (blast intro: step_ok_trans)
    next
      case None
      with assms True f1 Inr f2 have "discover_and_create e (token_payload issuer owner amount) s2 = (r, s')"
        by (simp add: createSimpleToken_def)
      from discover_and_create_ok[OF this] a b show ?thesis by (blast intro: step_ok_trans)
    qed
  qed
qed

lemma findPackageId_returns: "\<exists>r s'. findPackageId e s = (Inr r, s')"
  by (auto simp: findPackageId_def split: prod.splits sum.splits)

lemma sent_mono: "step_ok e s s' \<Longrightarrow> length (sent s) \<le> length (sent s')"
  by (auto simp: step_ok_def sends_def)

lemma fetch_grows: "fetch gw r s = (x, s') \<Longrightarrow> length (sent s') = Suc (length (sent s))"
  by (auto simp: fetch_def)

lemma getPackages_grows:
  "truthy (token s) \<Longrightarrow> getPackages e s = (r, s') \<Longrightarrow> length (sent s) < length (sent s')"
  by (auto simp: getPackages_def split: prod.splits response.splits if_splits sum.splits dest!: fetch_grows)

lemma createContract_grows:
  "truthy (token s) \<Longrightarrow> createContract e tid pl s = (r, s') \<Longrightarrow> length (sent s) < length (sent s')"
  by (auto simp: createContract_def split: prod.splits response.splits if_splits sum.splits dest!: fetch_grows)

lemma exerciseChoice_grows:
  "truthy (token s) \<Longrightarrow> exerciseChoice e c ch a s = (r, s') \<Longrightarrow> length (sent s) < length (sent s')"
  by (auto simp: exerciseChoice_def split: prod.splits response.splits if_splits sum.splits dest!: fetch_grows)

lemma finalTemplateIds_returns: "\<exists>r s'. finalTemplateIds e tids s = (Inr r, s')"
  using findPackageId_returns[of e s]
  by (auto simp: finalTemplateIds_def)

lemma queryContracts_grows:
  assumes "truthy (token s)" "queryContracts e tids s = (r, s')"
  shows "length (sent s) < length (sent s')"
proof -
  obtain ftids s1 where f1: "finalTemplateIds e tids s = (Inr ftids, s1)"
    using finalTemplateIds_returns by blast
  from finalTemplateIds_ok[OF f1] have a: "length (sent s) \<le> length (sent s1)"
    by (auto dest: sent_mono)
  obtain x s2 where f2: "fetch (gw_query e) (query_request e (str_null (token s1)) ftids) s1 = (x, s2)"
    by force
  obtain y s3 where f3: "fetch (gw_query e) (query_request e (str_null (token s2)) []) s2 = (y, s3)"
    by force
  from assms f1 f2 f3 have "s' = s2 \<or> s' = s3"
    by (auto simp: queryContracts_def split: option.splits)
  with a fetch_grows[OF f2] fetch_grows[OF f3] show ?thesis by auto
qed

lemma try_all_packages_mono:
  "try_all_packages e pkgs pl n s = (r, s') \<Longrightarrow> length (sent s) \<le> length (sent s')"
  by (drule try_all_packages_ok) (rule sent_mono)

lemma discover_and_create_grows:
  "truthy (token s) \<Longrightarrow> discover_and_create e pl s = (r, s') \<Longrightarrow> length (sent s) < length (sent s')"
  by (auto simp: discover_and_create_def split: prod.splits sum.splits
      dest!: getPackages_grows try_all_packages_mono)

lemma createSimpleToken_grows:
  assumes "truthy (token s)" "createSimpleToken e issuer owner amount s = (r, s')"
  shows "length (sent s) < length (sent s')"
proof -
  obtain pk s1 where f1: "findPackageId e s = (Inr pk, s1)"
    using findPackageId_returns by blast
  from findPackageId_ok[OF f1] have a: "length (sent s) \<le> length (sent s1)" and t1: "token s1 = token s"
    by (auto dest: sent_mono step_ok_token)
  obtain o2 s2 where f2: "create_with_found e pk (token_payload issuer owner amount) s1 = (o2, s2)"
    by force
  from create_with_found_ok[OF f2] have b: "length (sent s1) \<le> length (sent s2)" and t2: "token s2 = token s1"
    by (auto dest: sent_mono step_ok_token)
  show ?thesis
  proof (cases "truthy pk")
    case True
    from assms(1) t1 have tt: "truthy (token s1)" by simp
    from True f2 have "length (sent s1) < length (sent s2)"
      by (auto simp: create_with_found_def split: prod.splits sum.splits if_splits
          dest!: createContract_grows[OF tt])
    moreover have "length (sent s2) \<le> length (sent s')"
      using assms f1 f2
      by (auto simp: createSimpleToken_def split: option.splits dest!: discover_and_create_ok sent_mono)
    ultimately show ?thesis using a by simp
  next
    case False
    with f2 have "o2 = None" "s2 = s1" by (auto simp: create_with_found_def)
    with assms f1 f2 have "discover_and_create e (token_payload issuer owner amount) s1 = (r, s')"
      by (simp add: createSimpleToken_def)
    from discover_and_create_grows[OF _ this] assms(1) t1 a show ?thesis by simp
  qed
qed

lemma run_op_ledger_ok:
  "ledger_op op \<Longrightarrow> run_op e op s = (r, s') \<Longrightarrow> step_ok e s s'"
  by (cases op)
    (auto elim!: thrown.elims dest: getPackages_ok queryContracts_ok createContract_ok
       createSimpleToken_ok exerciseChoice_ok)

lemma run_op_ledger_grows:
  "ledger_op op \<Longrightarrow> truthy (token s) \<Longrightarrow> run_op e op s = (r, s') \<Longrightarrow> length (sent s) < length (sent s')"
  by (cases op)
    (auto elim!: thrown.elims dest: getPackages_grows queryContracts_grows createContract_grows
       createSimpleToken_grows exerciseChoice_grows)

lemma run_op_unauthenticated:
  "ledger_op op \<Longrightarrow> \<not> truthy (token s) \<Longrightarrow> run_op e op s = (Some (Error ''Not authenticated''), s)"
  by (cases op)
    (simp_all add: getPackages_def queryContracts_def createContract_def
       createSimpleToken_def exerciseChoice_def)

lemma signed_in_simps:
  "token signed_in = Some ''tok''" "sent signed_in = []"
  "localStorage signed_in ''daml_package_id'' = None"
  by (simp_all add: signed_in_def constructor_def)

lemma getPackages_down: "run_op env_down GetPackages signed_in =
    (Some (TypeError ''Failed to fetch''), signed_in\<lparr>sent := [packages_request env_down ''tok'']\<rparr>)"
  by (simp add: getPackages_def signed_in_simps fetch_def env_down_def test_env_def unreachable_def)

lemma getPackages_fresh: "run_op env_down GetPackages fresh = (Some (Error ''Not authenticated''), fresh)"
  by (simp add: getPackages_def fresh_def constructor_def)

lemma base_down: "API_BASE_URL env_down = ''/v1''"
  by (simp add: API_BASE_URL_def env_down_def test_env_def)

lemma new_requests_signed_in: "new_requests signed_in (signed_in\<lparr>sent := rs\<rparr>) = rs"
  by (simp add: new_requests_def signed_in_simps)

lemma known_parties: "known_path e (parties_request e t)"
  by (simp add: known_path_def parties_request_def all_paths_def)

lemma login_sends: "login e uid s = (r, s') \<Longrightarrow> sends (known_path e) s s'"
  by (auto simp: login_def fetch_def sends_def known_parties
      split: prod.splits response.splits if_splits sum.splits option.splits)

lemma step_ok_known: "step_ok e s s' \<Longrightarrow> sends (known_path e) s s'"
  unfolding step_ok_def
  by (auto elim!: sends_mono simp: client_request_def known_path_def)

lemma run_op_sends: "run_op e op s = (r, s') \<Longrightarrow> sends (known_path e) s s'"
  by (cases op)
    (auto elim!: thrown.elims simp: logout_def sends_def[of _ s "s\<lparr>token := _, userId := _ , partyIdentifier := _, localStorage := _\<rparr>"]
       dest: login_sends findPackageId_ok getPackages_ok queryContracts_ok createContract_ok
       createSimpleToken_ok exerciseChoice_ok step_ok_known)

subsection \<open>The claims\<close>

text \<open>
  C10. \<open>logout\<close> sets \<open>token\<close>, \<open>userId\<close> and \<open>partyIdentifier\<close> to null and removes the
  entries \<open>daml_token\<close>, \<open>daml_user_id\<close> and \<open>daml_party_identifier\<close> of localStorage;
  afterwards \<open>isAuthenticated\<close> is false. Every other stored value is what it was (the
  storage after logout is the storage before with exactly these three keys unset), the
  cached \<open>daml_package_id\<close> entry survives, and no request is sent.
\<close>

theorem logout_frame:
  "token (logout s) = None \<and> userId (logout s) = None \<and> partyIdentifier (logout s) = None
   \<and> localStorage (logout s) ''daml_token'' = None
   \<and> localStorage (logout s) ''daml_user_id'' = None
   \<and> localStorage (logout s) ''daml_party_identifier'' = None
   \<and> \<not> isAuthenticated (logout s)
   \<and> localStorage (logout s) =
       (localStorage s)(''daml_token'' := None, ''daml_user_id'' := None,
                        ''daml_party_identifier'' := None)
   \<and> localStorage (logout s) ''daml_package_id'' = localStorage s ''daml_package_id''
   \<and> sent (logout s) = sent s"
  by (simp add: logout_def isAuthenticated_def)

text \<open>
  C6. Each of \<open>queryContracts\<close>, \<open>createContract\<close>, \<open>exerciseChoice\<close>, \<open>getPackages\<close> and
  \<open>createSimpleToken\<close>, run without a token (null or the empty string), throws the error
  \<open>Not authenticated\<close> and leaves the state, so also the list of requests sent, as it
  was. Run with a token \<open>t\<close> it sends at least one request, and every request it sends
  has the header \<open>Authorization: Bearer t\<close>.
\<close>

theorem ledger_ops_bearer_token:
  assumes "ledger_op op" and "run_op e op s = (r, s')"
  shows "(\<not> truthy (token s) \<longrightarrow> r = Some (Error ''Not authenticated'') \<and> s' = s)
       \<and> (\<forall>t. token s = Some t \<and> t \<noteq> [] \<longrightarrow>
            sent s' = sent s @ new_requests s s' \<and> new_requests s s' \<noteq> []
            \<and> (\<forall>rq \<in> set (new_requests s s'). authorization rq = Some (''Bearer '' @ t)))"
proof (intro conjI impI allI)
  assume "\<not> truthy (token s)"
  from run_op_unauthenticated[OF assms(1) this, of e] assms(2)
  show "r = Some (Error ''Not authenticated'')" and "s' = s" by simp_all
next
  fix t assume t: "token s = Some t \<and> t \<noteq> []"
  from run_op_ledger_ok[OF assms] obtain new
    where new: "sent s' = sent s @ new" "list_all (client_request e t) new"
    using t by (auto simp: step_ok_def sends_def)
  then have nr: "new_requests s s' = new" by (simp add: new_requests_def)
  show "sent s' = sent s @ new_requests s s'" using new nr by simp
  from run_op_ledger_grows[OF assms(1) _ assms(2)] t new nr
  show "new_requests s s' \<noteq> []" by auto
  show "\<forall>rq \<in> set (new_requests s s'). authorization rq = Some (''Bearer '' @ t)"
    using new nr by (auto simp: list_all_iff client_request_def)
qed

theorem ledger_ops_bearer_token_witness:
  "ledger_op GetPackages \<and> \<not> truthy (token fresh)
   \<and> run_op env_down GetPackages fresh = (Some (Error ''Not authenticated''), fresh)
   \<and> token signed_in = Some ''tok''
   \<and> run_op env_down GetPackages signed_in =
       (Some (TypeError ''Failed to fetch''),
        signed_in\<lparr>sent := [packages_request env_down ''tok'']\<rparr>)
   \<and> authorization (packages_request env_down ''tok'') = Some ''Bearer tok''"
proof -
  have l: "ledger_op GetPackages" by simp
  have nt: "\<not> truthy (token fresh)" by (simp add: fresh_def constructor_def)
  from ledger_ops_bearer_token[OF l getPackages_fresh]
  have a: "run_op env_down GetPackages fresh = (Some (Error ''Not authenticated''), fresh)"
    by (simp add: getPackages_fresh del: run_op.simps)
  from ledger_ops_bearer_token[OF l getPackages_down]
  have "authorization (packages_request env_down ''tok'') = Some ''Bearer tok''"
    by (simp add: signed_in_simps new_requests_signed_in)
  with l nt a getPackages_down show ?thesis
    by (simp add: signed_in_simps del: run_op.simps)
qed

text \<open>
  C8. \<open>login\<close> is atomic with respect to the session state. If it throws, at whatever
  stage (the parties fetch is rejected or not OK, its body does not parse, no party
  matches, the token cannot be encoded, or the validation request is rejected or not OK),
  then \<open>token\<close>, \<open>userId\<close>, \<open>partyIdentifier\<close> and all of localStorage are what they were
  before the call. If it returns, then the party lookup and the validation request with
  the new token have both succeeded.
\<close>

theorem login_atomic:
  "(login e uid s = (Inl err, s') \<longrightarrow>
      token s' = token s \<and> userId s' = userId s \<and> partyIdentifier s' = partyIdentifier s
      \<and> localStorage s' = localStorage s)
   \<and> (login e uid s = (Inr tok, s') \<longrightarrow>
        (\<exists>tx ps p tx2 js2.
           gw_parties e (sent s) (parties_request e uid) = Response True tx (Inr ps)
           \<and> find (party_matches uid) (or_empty ps) = Some p
           \<and> gw_parties e (sent s @ [parties_request e uid]) (parties_request e tok)
               = Response True tx2 js2))"
  by (auto simp: login_def fetch_def createSimpleJWT_def
      split: response.splits if_splits sum.splits option.splits prod.splits)

lemma stale_simps:
  "token signed_in_stale = Some ''tok''" "userId signed_in_stale = Some ''alice''"
  "partyIdentifier signed_in_stale = Some ''Alice::1220''" "sent signed_in_stale = []"
  "localStorage signed_in_stale ''daml_package_id'' = Some ''stale''"
  "localStorage signed_in_stale ''daml_token'' = Some ''tok''"
  by (simp_all add: signed_in_stale_def constructor_def)

lemma login_rejected:
  "login env_rejects_jwt ''alice'' signed_in_stale =
     (Inl (Error ''Authentication failed: invalid token''),
      signed_in_stale\<lparr>sent :=
        [parties_request env_rejects_jwt ''alice'',
         parties_request env_rejects_jwt
           (jwt_header @ ''.'' @ ''e30'' @ ''.'')]\<rparr>)"
  by (simp add: login_def fetch_def env_rejects_jwt_def test_env_def parties_request_def
      authorization_def bearer_def or_empty_def alice_party_def party_matches_def
      toLowerCase_def lowerChar_def createSimpleJWT_def jwt_header_def stale_simps)

lemma login_alice:
  "login env_alice ''alice'' fresh =
     (Inr (jwt_header @ ''.'' @ ''e30'' @ ''.''),
      fresh\<lparr>token := Some (jwt_header @ ''.'' @ ''e30'' @ ''.''), userId := Some ''alice'',
        partyIdentifier := Some ''Alice::1220'',
        localStorage := (localStorage fresh)
          (''daml_token'' \<mapsto> jwt_header @ ''.'' @ ''e30'' @ ''.'',
           ''daml_user_id'' \<mapsto> ''alice'',
           ''daml_party_identifier'' \<mapsto> ''Alice::1220''),
        sent := [parties_request env_alice ''alice'',
                 parties_request env_alice (jwt_header @ ''.'' @ ''e30'' @ ''.'')]\<rparr>)"
  by (simp add: login_def fetch_def env_alice_def test_env_def
      or_empty_def alice_party_def party_matches_def
      toLowerCase_def lowerChar_def createSimpleJWT_def fresh_def constructor_def)

theorem login_atomic_witness:
  "login env_rejects_jwt ''alice'' signed_in_stale =
     (Inl (Error ''Authentication failed: invalid token''),
      signed_in_stale\<lparr>sent :=
        [parties_request env_rejects_jwt ''alice'',
         parties_request env_rejects_jwt
           (jwt_header @ ''.'' @ ''e30'' @ ''.'')]\<rparr>)
   \<and> token (signed_in_stale\<lparr>sent :=
        [parties_request env_rejects_jwt ''alice'',
         parties_request env_rejects_jwt
           (jwt_header @ ''.'' @ ''e30'' @ ''.'')]\<rparr>) = Some ''tok''
   \<and> fst (login env_alice ''alice'' fresh) = Inr (jwt_header @ ''.'' @ ''e30'' @ ''.'')
   \<and> (\<exists>tx ps p tx2 js2.
         gw_parties env_alice (sent fresh) (parties_request env_alice ''alice'')
           = Response True tx (Inr ps)
         \<and> find (party_matches ''alice'') (or_empty ps) = Some p
         \<and> gw_parties env_alice (sent fresh @ [parties_request env_alice ''alice''])
              (parties_request env_alice (jwt_header @ ''.'' @ ''e30'' @ ''.''))
             = Response True tx2 js2)"
proof -
  note r = login_atomic[of env_rejects_jwt "''alice''" signed_in_stale
      "Error ''Authentication failed: invalid token''"
      "signed_in_stale\<lparr>sent :=
        [parties_request env_rejects_jwt ''alice'',
         parties_request env_rejects_jwt
           (jwt_header @ ''.'' @ ''e30'' @ ''.'')]\<rparr>"]
  from r login_rejected
  have a: "token (signed_in_stale\<lparr>sent :=
        [parties_request env_rejects_jwt ''alice'',
         parties_request env_rejects_jwt
           (jwt_header @ ''.'' @ ''e30'' @ ''.'')]\<rparr>) = Some ''tok''"
    by (simp add: stale_simps)
  from login_atomic[of env_alice "''alice''" fresh _ _ "jwt_header @ ''.'' @ ''e30'' @ ''.''"]
    login_alice
  have b: "\<exists>tx ps p tx2 js2.
         gw_parties env_alice (sent fresh) (parties_request env_alice ''alice'')
           = Response True tx (Inr ps)
         \<and> find (party_matches ''alice'') (or_empty ps) = Some p
         \<and> gw_parties env_alice (sent fresh @ [parties_request env_alice ''alice''])
              (parties_request env_alice (jwt_header @ ''.'' @ ''e30'' @ ''.''))
             = Response True tx2 js2"
    by blast
  from login_rejected a b login_alice show ?thesis by simp
qed

lemma probe_packages_Some:
  "probe_packages e ps s = (Some p, s') \<Longrightarrow>
     localStorage s' ''daml_package_id'' = Some p \<and> p \<in> set ps"
  by (induction ps arbitrary: s)
    (auto simp: cache_package_def split: prod.splits response.splits if_splits)

lemma findPackageId_try_Some:
  "findPackageId_try e s = (Inr (Some p), s') \<Longrightarrow> localStorage s' ''daml_package_id'' = Some p"
  by (auto simp: findPackageId_try_def cache_package_def
      split: prod.splits response.splits sum.splits option.splits if_splits
      dest: probe_packages_Some)

lemma findPackageId_Some:
  "findPackageId e s = (Inr (Some p), s') \<Longrightarrow> localStorage s' ''daml_package_id'' = Some p"
  by (auto simp: findPackageId_def split: if_splits prod.splits sum.splits
      dest: findPackageId_try_Some)

lemma login_storage:
  "login e uid s = (r, s') \<Longrightarrow>
     localStorage s' ''daml_package_id'' = localStorage s ''daml_package_id''
     \<and> (\<forall>k. localStorage s k \<noteq> None \<longrightarrow> localStorage s' k \<noteq> None)"
  by (auto simp: login_def fetch_def
      split: prod.splits response.splits sum.splits option.splits if_splits)

lemma step_ok_session_keys:
  "step_ok e s s' \<Longrightarrow> k \<in> session_keys \<Longrightarrow> localStorage s' k = localStorage s k"
  by (auto simp: step_ok_def session_keys_def)

lemma run_op_session_keys:
  assumes "run_op e op s = (r, s')" "op \<noteq> Logout" "k \<in> session_keys" "localStorage s k \<noteq> None"
  shows "localStorage s' k \<noteq> None"
proof (cases op)
  case (Login uid)
  with assms show ?thesis by (auto elim!: thrown.elims dest!: login_storage)
next
  case Logout
  with assms show ?thesis by simp
next
  case FindPackageId
  with assms have "step_ok e s s'" by (auto elim!: thrown.elims dest: findPackageId_ok)
  from step_ok_session_keys[OF this assms(3)] assms(4) show ?thesis by simp
qed (use assms run_op_ledger_ok[of op e s r s'] step_ok_session_keys[of e s s' k] in auto)

lemma run_op_keeps_package:
  assumes "run_op e op s = (r, s')" "\<not> is_createSimpleToken op"
  shows "keeps_package s s'"
  using assms
  by (cases op)
    (auto elim!: thrown.elims simp: keeps_package_refl
       dest: getPackages_ok findPackageId_ok queryContracts_ok createContract_ok exerciseChoice_ok
       dest!: login_storage intro: keeps_same,
     auto simp: keeps_package_def logout_def)

lemma create_with_found_removes:
  "truthy pk \<Longrightarrow> create_with_found e pk pl s = (None, s') \<Longrightarrow>
     localStorage s' ''daml_package_id'' = None"
  by (auto simp: create_with_found_def split: prod.splits sum.splits if_splits)

text \<open>
  C5, amended. A successful \<open>login\<close> stores the token, the user id and the party
  identifier of the matched party under \<open>daml_token\<close>, \<open>daml_user_id\<close> and
  \<open>daml_party_identifier\<close>; a \<open>findPackageId\<close> that returns a package id leaves it stored
  under \<open>daml_package_id\<close>. No operation of the client other than \<open>logout\<close> removes one of
  the three session entries, and none other than \<open>createSimpleToken\<close> removes
  \<open>daml_package_id\<close>: \<open>createSimpleToken\<close> removes it when the create with the package id
  it found fails with a template-resolution error.
\<close>

theorem session_entries_kept:
  "(login e uid s = (Inr tok, s1) \<longrightarrow>
      token s1 = Some tok \<and> userId s1 = Some uid
      \<and> localStorage s1 ''daml_token'' = Some tok
      \<and> localStorage s1 ''daml_user_id'' = Some uid
      \<and> localStorage s1 ''daml_party_identifier'' = Some (str_undefined (partyIdentifier s1)))
   \<and> (findPackageId e s = (Inr (Some p), s2) \<longrightarrow>
        localStorage s2 ''daml_package_id'' = Some p)
   \<and> (run_op e op s = (r, s3) \<longrightarrow>
        (op \<noteq> Logout \<longrightarrow>
           (\<forall>k \<in> session_keys. localStorage s k \<noteq> None \<longrightarrow> localStorage s3 k \<noteq> None))
        \<and> (\<not> is_createSimpleToken op \<longrightarrow> localStorage s ''daml_package_id'' \<noteq> None \<longrightarrow>
              localStorage s3 ''daml_package_id'' \<noteq> None))
   \<and> (truthy pk \<and> create_with_found e pk pl s = (None, s4) \<longrightarrow>
        localStorage s4 ''daml_package_id'' = None)"
proof (intro conjI impI ballI)
  assume "login e uid s = (Inr tok, s1)"
  then show "token s1 = Some tok" "userId s1 = Some uid"
    "localStorage s1 ''daml_token'' = Some tok"
    "localStorage s1 ''daml_user_id'' = Some uid"
    "localStorage s1 ''daml_party_identifier'' = Some (str_undefined (partyIdentifier s1))"
    by (auto simp: login_def fetch_def
        split: prod.splits response.splits sum.splits option.splits if_splits)
next
  assume "findPackageId e s = (Inr (Some p), s2)"
  then show "localStorage s2 ''daml_package_id'' = Some p" by (rule findPackageId_Some)
next
  fix k
  assume "run_op e op s = (r, s3)" "op \<noteq> Logout" "k \<in> session_keys" "localStorage s k \<noteq> None"
  then show "localStorage s3 k \<noteq> None" by (rule run_op_session_keys)
next
  assume "run_op e op s = (r, s3)" "\<not> is_createSimpleToken op"
    "localStorage s ''daml_package_id'' \<noteq> None"
  with run_op_keeps_package[of e op s r s3]
  show "localStorage s3 ''daml_package_id'' \<noteq> None" by (simp add: keeps_package_def)
next
  assume "truthy pk \<and> create_with_found e pk pl s = (None, s4)"
  then show "localStorage s4 ''daml_package_id'' = None"
    by (auto dest: create_with_found_removes)
qed

lemma create_stale:
  "createSimpleToken env_no_template ''Alice::1220'' ''Bob::1220'' ''10'' signed_in_stale =
     (Inl (tried_all 2),
      signed_in_stale\<lparr>localStorage := (localStorage signed_in_stale)(''daml_package_id'' := None),
        sent := [create_request env_no_template ''tok'' ''stale:SimpleToken:SimpleToken''
                   (token_payload ''Alice::1220'' ''Bob::1220'' ''10''),
                 packages_request env_no_template ''tok'',
                 create_request env_no_template ''tok'' ''p2:SimpleToken:SimpleToken''
                   (token_payload ''Alice::1220'' ''Bob::1220'' ''10''),
                 create_request env_no_template ''tok'' ''p1:SimpleToken:SimpleToken''
                   (token_payload ''Alice::1220'' ''Bob::1220'' ''10'')]\<rparr>)"
  by (simp add: createSimpleToken_def findPackageId_def create_with_found_def createContract_def
      discover_and_create_def getPackages_def fetch_def env_no_template_def test_env_def
      is_resolution_error_def simple_token_template_def or_empty_def stale_simps
      create_request_def packages_request_def API_BASE_URL_def numeral_2_eq_2)

text \<open>
  C5, as stated, fails: \<open>createSimpleToken\<close>, which is neither \<open>logout\<close> nor the
  cache-clear action, removes the entry \<open>daml_package_id\<close>. Here the cached id \<open>stale\<close>
  resolves no template, and neither does any listed package.
\<close>

theorem session_entries_kept_counterexample:
  "localStorage signed_in_stale ''daml_package_id'' = Some ''stale''
   \<and> localStorage
        (snd (createSimpleToken env_no_template ''Alice::1220'' ''Bob::1220'' ''10''
                signed_in_stale)) ''daml_package_id'' = None"
  by (simp add: create_stale stale_simps)

lemma find_cached:
  "findPackageId env_down signed_in_stale = (Inr (Some ''stale''), signed_in_stale)"
  by (simp add: findPackageId_def stale_simps)

theorem session_entries_kept_witness:
  "login env_alice ''alice'' fresh =
     (Inr (jwt_header @ ''.'' @ ''e30'' @ ''.''),
      fresh\<lparr>token := Some (jwt_header @ ''.'' @ ''e30'' @ ''.''), userId := Some ''alice'',
        partyIdentifier := Some ''Alice::1220'',
        localStorage := (localStorage fresh)
          (''daml_token'' \<mapsto> jwt_header @ ''.'' @ ''e30'' @ ''.'',
           ''daml_user_id'' \<mapsto> ''alice'',
           ''daml_party_identifier'' \<mapsto> ''Alice::1220''),
        sent := [parties_request env_alice ''alice'',
                 parties_request env_alice (jwt_header @ ''.'' @ ''e30'' @ ''.'')]\<rparr>)
   \<and> findPackageId env_down signed_in_stale = (Inr (Some ''stale''), signed_in_stale)
   \<and> run_op env_down FindPackageId signed_in_stale = (None, signed_in_stale)
   \<and> FindPackageId \<noteq> Logout \<and> \<not> is_createSimpleToken FindPackageId
   \<and> ''daml_token'' \<in> session_keys
   \<and> localStorage signed_in_stale ''daml_token'' = Some ''tok''
   \<and> localStorage signed_in_stale ''daml_package_id'' = Some ''stale''"
proof -
  have ro: "run_op env_down FindPackageId signed_in_stale = (None, signed_in_stale)"
    by (simp add: find_cached)
  have k: "''daml_token'' \<in> session_keys" by (simp add: session_keys_def)
  from session_entries_kept[of env_down _ signed_in_stale _ _ "''stale''" signed_in_stale
      FindPackageId None signed_in_stale] find_cached ro k
  have a: "localStorage signed_in_stale ''daml_package_id'' = Some ''stale''"
    and b: "localStorage signed_in_stale ''daml_token'' \<noteq> None"
    by (simp_all add: stale_simps del: run_op.simps)
  from session_entries_kept[of env_alice "''alice''" fresh
      "jwt_header @ ''.'' @ ''e30'' @ ''.''"] login_alice
  have c: "fst (login env_alice ''alice'' fresh) = Inr (jwt_header @ ''.'' @ ''e30'' @ ''.'')"
    by simp
  from a b c login_alice find_cached ro k show ?thesis
    by (simp add: stale_simps del: run_op.simps)
qed

lemma probe_packages_result:
  "probe_packages e ps s = (r, s') \<Longrightarrow>
     (case r of
        None \<Rightarrow> list_all (\<lambda>p. \<exists>h. \<not> probe_accepts (gw_query e h (probe_request e s p))) ps
      | Some p \<Rightarrow> p \<in> set ps \<and> (\<exists>h. probe_accepts (gw_query e h (probe_request e s p)))
                 \<and> localStorage s' ''daml_package_id'' = Some p)"
proof (induction ps arbitrary: s)
  case Nil
  then show ?case by simp
next
  case (Cons p ps)
  let ?x = "gw_query e (sent s) (probe_request e s p)"
  let ?s1 = "s\<lparr>sent := sent s @ [probe_request e s p]\<rparr>"
  have pr: "\<And>q. probe_request e ?s1 q = probe_request e s q"
    by (simp add: probe_request_def)
  show ?case
  proof (cases "probe_accepts ?x")
    case True
    with Cons.prems have "r = Some p" "s' = cache_package p ?s1"
      by (auto simp: probe_accepts_def probe_request_def fetch_def split: response.splits)
    with True show ?thesis by (auto simp: cache_package_def)
  next
    case False
    with Cons.prems have "probe_packages e ps ?s1 = (r, s')"
      by (auto simp: probe_accepts_def probe_request_def fetch_def split: response.splits)
    from Cons.IH[OF this] False show ?thesis
      by (auto simp: pr split: option.splits)
  qed
qed

lemma findPackageId_uncached:
  "\<not> truthy (localStorage s ''daml_package_id'') \<Longrightarrow>
     findPackageId e s =
       (case findPackageId_try e s of
          (Inl err, s1) \<Rightarrow> (Inr None, s1)
        | (Inr r, s1) \<Rightarrow> (Inr r, s1))"
  by (simp add: findPackageId_def)

lemma findPackageId_try_no_package:
  "no_package_found (gw_query e (sent s) (all_contracts_request e s)) \<Longrightarrow>
     findPackageId_try e s =
       (case getPackages e (s\<lparr>sent := sent s @ [all_contracts_request e s]\<rparr>) of
          (Inl err, s2) \<Rightarrow> (Inl err, s2)
        | (Inr packagesData, s2) \<Rightarrow>
            (case probe_packages e (or_empty packagesData) s2 of (r, s3) \<Rightarrow> (Inr r, s3)))"
  by (auto simp: findPackageId_try_def no_package_found_def all_contracts_request_def fetch_def
      split: response.splits sum.splits if_splits)

text \<open>
  C9, amended. \<open>findPackageId\<close> never throws. With a non-empty \<open>daml_package_id\<close> stored
  it returns that value and sends nothing. Otherwise: a rejected all-contracts fetch and
  an OK answer to it that does not parse give null; when that answer yields no package
  id, a throwing \<open>getPackages\<close> gives null, and else the result is that of the probe loop
  over the listed candidates. The probe loop returns null only if the probe of every
  candidate was rejected or answered not OK with a resolution marker in its text; a
  candidate it returns was answered OK, or not OK without a resolution marker, and is
  stored under \<open>daml_package_id\<close>.
\<close>

theorem findPackageId_never_throws:
  "(\<exists>r s'. findPackageId e s = (Inr r, s'))
   \<and> (truthy (localStorage s ''daml_package_id'') \<longrightarrow>
        findPackageId e s = (Inr (localStorage s ''daml_package_id''), s))
   \<and> (\<not> truthy (localStorage s ''daml_package_id'') \<longrightarrow>
        (gw_query e (sent s) (all_contracts_request e s) = NetworkError m \<longrightarrow>
           fst (findPackageId e s) = Inr None)
        \<and> (gw_query e (sent s) (all_contracts_request e s) = Response True tx (Inl m) \<longrightarrow>
             fst (findPackageId e s) = Inr None)
        \<and> (no_package_found (gw_query e (sent s) (all_contracts_request e s)) \<longrightarrow>
             (getPackages e (s\<lparr>sent := sent s @ [all_contracts_request e s]\<rparr>) = (Inl err, s2)
                \<longrightarrow> findPackageId e s = (Inr None, s2))
             \<and> (getPackages e (s\<lparr>sent := sent s @ [all_contracts_request e s]\<rparr>)
                    = (Inr packagesData, s2)
                \<longrightarrow> findPackageId e s =
                     (Inr (fst (probe_packages e (or_empty packagesData) s2)),
                      snd (probe_packages e (or_empty packagesData) s2)))))
   \<and> (probe_packages e ps s = (None, s3) \<longrightarrow>
        list_all (\<lambda>p. \<exists>h. \<not> probe_accepts (gw_query e h (probe_request e s p))) ps)
   \<and> (probe_packages e ps s = (Some p, s3) \<longrightarrow>
        p \<in> set ps \<and> (\<exists>h. probe_accepts (gw_query e h (probe_request e s p)))
        \<and> localStorage s3 ''daml_package_id'' = Some p)"
proof (intro conjI impI)
  show "\<exists>r s'. findPackageId e s = (Inr r, s')" by (rule findPackageId_returns)
next
  assume "truthy (localStorage s ''daml_package_id'')"
  then show "findPackageId e s = (Inr (localStorage s ''daml_package_id''), s)"
    by (simp add: findPackageId_def)
next
  assume "\<not> truthy (localStorage s ''daml_package_id'')"
    and "gw_query e (sent s) (all_contracts_request e s) = NetworkError m"
  then show "fst (findPackageId e s) = Inr None"
    by (simp add: findPackageId_uncached findPackageId_try_def fetch_def
        all_contracts_request_def)
next
  assume "\<not> truthy (localStorage s ''daml_package_id'')"
    and "gw_query e (sent s) (all_contracts_request e s) = Response True tx (Inl m)"
  then show "fst (findPackageId e s) = Inr None"
    by (simp add: findPackageId_uncached findPackageId_try_def fetch_def
        all_contracts_request_def)
next
  assume "\<not> truthy (localStorage s ''daml_package_id'')"
    and "no_package_found (gw_query e (sent s) (all_contracts_request e s))"
    and "getPackages e (s\<lparr>sent := sent s @ [all_contracts_request e s]\<rparr>) = (Inl err, s2)"
  then show "findPackageId e s = (Inr None, s2)"
    by (simp add: findPackageId_uncached findPackageId_try_no_package)
next
  assume "\<not> truthy (localStorage s ''daml_package_id'')"
    and "no_package_found (gw_query e (sent s) (all_contracts_request e s))"
    and "getPackages e (s\<lparr>sent := sent s @ [all_contracts_request e s]\<rparr>)
           = (Inr packagesData, s2)"
  then show "findPackageId e s =
      (Inr (fst (probe_packages e (or_empty packagesData) s2)),
       snd (probe_packages e (or_empty packagesData) s2))"
    by (simp add: findPackageId_uncached findPackageId_try_no_package split: prod.splits)
next
  assume "probe_packages e ps s = (None, s3)"
  from probe_packages_result[OF this]
  show "list_all (\<lambda>p. \<exists>h. \<not> probe_accepts (gw_query e h (probe_request e s p))) ps"
    by simp
next
  assume a: "probe_packages e ps s = (Some p, s3)"
  from probe_packages_result[OF a]
  show "p \<in> set ps" "\<exists>h. probe_accepts (gw_query e h (probe_request e s p))"
    "localStorage s3 ''daml_package_id'' = Some p"
    by simp_all
qed

lemma find_unauthorized:
  "findPackageId env_unauthorized signed_in =
     (Inr (Some ''p1''),
      cache_package ''p1''
        (signed_in\<lparr>sent := [all_contracts_request env_unauthorized signed_in,
                            packages_request env_unauthorized ''tok'',
                            probe_request env_unauthorized signed_in ''p1'']\<rparr>))"
  by (simp add: findPackageId_def findPackageId_try_def getPackages_def fetch_def
      env_unauthorized_def test_env_def or_empty_def signed_in_simps
      all_contracts_request_def probe_request_def packages_request_def query_request_def
      API_BASE_URL_def)

text \<open>
  C9, as stated, fails: a response that is not OK does not always result in null. Here
  every answer to a query is not OK, and \<open>findPackageId\<close> returns the candidate \<open>p1\<close>.
\<close>

theorem findPackageId_null_counterexample:
  "gw_query env_unauthorized [] (all_contracts_request env_unauthorized signed_in)
     = Response False ''Unauthorized'' (Inl ''Unexpected token'')
   \<and> gw_query env_unauthorized
        [all_contracts_request env_unauthorized signed_in,
         packages_request env_unauthorized ''tok'']
        (probe_request env_unauthorized signed_in ''p1'')
     = Response False ''Unauthorized'' (Inl ''Unexpected token'')
   \<and> fst (findPackageId env_unauthorized signed_in) = Inr (Some ''p1'')"
  by (simp add: find_unauthorized) (simp add: env_unauthorized_def test_env_def)

theorem findPackageId_never_throws_witness:
  "truthy (localStorage signed_in_stale ''daml_package_id'')
   \<and> findPackageId env_down signed_in_stale = (Inr (Some ''stale''), signed_in_stale)
   \<and> \<not> truthy (localStorage signed_in ''daml_package_id'')
   \<and> gw_query env_down (sent signed_in) (all_contracts_request env_down signed_in)
       = NetworkError ''Failed to fetch''
   \<and> fst (findPackageId env_down signed_in) = Inr None"
proof -
  have a: "truthy (localStorage signed_in_stale ''daml_package_id'')"
    by (simp add: stale_simps)
  have b: "\<not> truthy (localStorage signed_in ''daml_package_id'')"
    by (simp add: signed_in_simps)
  have c: "gw_query env_down (sent signed_in) (all_contracts_request env_down signed_in)
       = NetworkError ''Failed to fetch''"
    by (simp add: env_down_def test_env_def unreachable_def)
  from findPackageId_never_throws[of env_down signed_in_stale] a
  have d: "findPackageId env_down signed_in_stale = (Inr (Some ''stale''), signed_in_stale)"
    by (simp add: stale_simps)
  from findPackageId_never_throws[of env_down signed_in "''Failed to fetch''"] b c
  have "fst (findPackageId env_down signed_in) = Inr None"
    by blast
  with a b c d show ?thesis by simp
qed

lemma try_all_packages_spec:
  "n \<le> length pkgs \<Longrightarrow>
     try_all_packages e pkgs pl n s
       = spec_try_candidates e (rev (take n pkgs)) pl (length pkgs) s"
proof (induction n arbitrary: s)
  case 0
  then show ?case by simp
next
  case (Suc i)
  then have i: "i < length pkgs" by simp
  then have r: "rev (take (Suc i) pkgs) = pkgs ! i # rev (take i pkgs)"
    by (simp add: take_Suc_conv_app_nth)
  from Suc have ih: "\<And>s. try_all_packages e pkgs pl i s
       = spec_try_candidates e (rev (take i pkgs)) pl (length pkgs) s"
    by simp
  show ?case
    by (simp add: r ih simple_token_template_def cache_package_def is_resolution_error_def
        split: prod.splits sum.splits)
qed

text \<open>The steps of a call in flight, run one after the other, are \<open>queryContracts\<close>.\<close>

lemma queryContracts_steps:
  assumes "qc_start e tids s = (p, s1)" "qc_resume e p s1 = (p2, s2)"
    "qc_resume e p2 s2 = (p3, s3)"
  shows "p3 = Settled (fst (queryContracts e tids s)) \<and> s3 = snd (queryContracts e tids s)"
  using assms
  by (auto simp: qc_start_def qc_resume_def queryContracts_def fetch_def
      split: if_splits prod.splits sum.splits option.splits promise.splits)

lemma qc_start_given:
  "truthy (token s) \<Longrightarrow> tids \<noteq> [] \<Longrightarrow>
     qc_start e tids s =
       (AwaitQuery (gw_query e (sent s) (query_request e (str_null (token s)) tids)),
        s\<lparr>sent := sent s @ [query_request e (str_null (token s)) tids]\<rparr>)"
  by (simp add: qc_start_def finalTemplateIds_def fetch_def)

lemma fetching_inv_start:
  "isAuthenticated s \<Longrightarrow> fetching_inv e s v (fetchAll_start e s v)"
  unfolding fetching_inv_def
  apply (rule exI[of _ "AwaitQuery (gw_query e (sent s) (query_request e (str_null (token s)) [''SimpleToken:SimpleToken'']))"])
  apply (rule exI[of _ "AwaitQuery (gw_query e (sent s @ [query_request e (str_null (token s)) [''SimpleToken:SimpleToken'']]) (query_request e (str_null (token s)) [''Escrow:Escrow'']))"])
  apply (rule exI[of _ "AwaitQuery (gw_query e (sent s @ [query_request e (str_null (token s)) [''SimpleToken:SimpleToken''], query_request e (str_null (token s)) [''Escrow:Escrow'']]) (query_request e (str_null (token s)) [''CollateralLock:CollateralLock'']))"])
  apply (rule exI[of _ 0])
  apply (simp add: fetchAll_start_def qc_start_given isAuthenticated_def promise_inv_def
      query_requests_def after_all_def)
  apply blast
  done

lemma qc_resume_inv:
  assumes "promise_inv e s tid p" "qc_resume e p s1 = (p', s2)" "token s1 = token s"
  shows "promise_inv e s tid p'
       \<and> token s2 = token s1 \<and> userId s2 = userId s1 \<and> partyIdentifier s2 = partyIdentifier s1
       \<and> localStorage s2 = localStorage s1
       \<and> (sent s2 = sent s1 \<and> (advanced p \<longrightarrow> advanced p')
           \<or> sent s2 = sent s1 @ [all_contracts_request e s] \<and> \<not> advanced p \<and> advanced p')"
proof (cases p)
  case (AwaitQuery r)
  with assms(1) obtain h where h: "r = gw_query e h (query_request e (str_null (token s)) [tid])"
    by (auto simp: promise_inv_def)
  show ?thesis
  proof (cases "on_query_response r")
    case None
    with AwaitQuery assms(2,3)
    have "p' = AwaitFallback (gw_query e (sent s1) (all_contracts_request e s))"
      "s2 = s1\<lparr>sent := sent s1 @ [all_contracts_request e s]\<rparr>"
      by (auto simp: qc_resume_def fetch_def all_contracts_request_def)
    moreover have "promise_inv e s tid (AwaitFallback (gw_query e (sent s1) (all_contracts_request e s)))"
      using None h by (auto simp: promise_inv_def)
    ultimately show ?thesis using AwaitQuery by simp
  next
    case (Some out)
    with AwaitQuery assms(2) have "p' = Settled out" "s2 = s1"
      by (auto simp: qc_resume_def)
    moreover have "promise_inv e s tid (Settled out)"
      using Some h by (auto simp: promise_inv_def answers_def)
    ultimately show ?thesis by simp
  qed
next
  case (AwaitFallback r2)
  with assms(1) obtain h h2
    where h: "on_query_response (gw_query e h (query_request e (str_null (token s)) [tid])) = None"
      and h2: "r2 = gw_query e h2 (all_contracts_request e s)"
    by (auto simp: promise_inv_def)
  from AwaitFallback assms(2) have "p' = Settled (on_fallback_response r2)" "s2 = s1"
    by (auto simp: qc_resume_def)
  moreover have "promise_inv e s tid (Settled (on_fallback_response r2))"
    unfolding promise_inv_def answers_def using h h2 by auto
  ultimately show ?thesis by simp
next
  case (Settled out)
  with assms show ?thesis by (auto simp: qc_resume_def)
qed

lemma after_all_pending:
  "\<not> settled a \<or> \<not> settled b \<or> \<not> settled c \<Longrightarrow> after_all [a, b, c] v = v"
  by (cases a; cases b; cases c) (auto simp: after_all_def)

lemma after_all_settled:
  "after_all [Settled x, Settled y, Settled z] v =
     v\<lparr>simpleTokens := collection x, escrows := collection y,
       collateralLocks := collection z, loading := False\<rparr>"
  by (simp add: after_all_def)

lemma fetching_inv_deliver:
  assumes "fetching_inv e s v st"
  shows "fetching_inv e s v (deliver e i st)"
proof -
  let ?v1 = "v\<lparr>loading := True, view_error := None\<rparr>"
  let ?fb = "all_contracts_request e s"
  from assms obtain a b c k where
    ps: "promises st = [a, b, c]"
    and ia: "promise_inv e s ''SimpleToken:SimpleToken'' a"
    and ib: "promise_inv e s ''Escrow:Escrow'' b"
    and ic: "promise_inv e s ''CollateralLock:CollateralLock'' c"
    and tk: "token (api st) = token s" and us: "userId (api st) = userId s"
    and pa: "partyIdentifier (api st) = partyIdentifier s"
    and ls: "localStorage (api st) = localStorage s"
    and sn: "sent (api st) = sent s @ query_requests e s @ replicate k ?fb"
    and kk: "k \<le> of_bool (advanced a) + of_bool (advanced b) + of_bool (advanced c)"
    and uu: "ui st = after_all [a, b, c] ?v1"
    unfolding fetching_inv_def by blast
  show ?thesis
  proof (cases "i < length (promises st) \<and> \<not> settled (promises st ! i)")
    case False
    then have "deliver e i st = st" by (auto simp: deliver_def)
    with assms show ?thesis by simp
  next
    case True
    obtain p' s2 where r: "qc_resume e (promises st ! i) (api st) = (p', s2)" by force
    from True r have d: "deliver e i st =
        st\<lparr>promises := (promises st)[i := p'], api := s2,
           ui := after_all ((promises st)[i := p']) (ui st)\<rparr>"
      by (simp add: deliver_def)
    from True ps have u1: "ui st = ?v1"
      by (cases i rule: nat.exhaust; simp add: uu after_all_pending less_Suc_eq_0_disj)
        (auto simp: after_all_pending less_Suc_eq_0_disj)
    from True ps have "i = 0 \<or> i = 1 \<or> i = 2" by auto
    then show ?thesis
    proof (elim disjE)
      assume i: "i = 0"
      from qc_resume_inv[OF ia _ tk, of p' s2] r ps i
      have q: "promise_inv e s ''SimpleToken:SimpleToken'' p'"
        "token s2 = token (api st)" "userId s2 = userId (api st)"
        "partyIdentifier s2 = partyIdentifier (api st)" "localStorage s2 = localStorage (api st)"
        "sent s2 = sent (api st) \<and> (advanced a \<longrightarrow> advanced p')
           \<or> sent s2 = sent (api st) @ [?fb] \<and> \<not> advanced a \<and> advanced p'"
        by simp_all
      from q(6) sn kk obtain k' where
        "sent s2 = sent s @ query_requests e s @ replicate k' ?fb"
        "k' \<le> of_bool (advanced p') + of_bool (advanced b) + of_bool (advanced c)"
      proof (elim disjE)
        assume "sent s2 = sent (api st) \<and> (advanced a \<longrightarrow> advanced p')"
        with sn kk show ?thesis by (intro that[of k]) (cases "advanced a"; auto)+
      next
        assume "sent s2 = sent (api st) @ [?fb] \<and> \<not> advanced a \<and> advanced p'"
        with sn kk show ?thesis
          by (intro that[of "Suc k"]) (auto simp: replicate_append_same)
      qed
      with q ib ic tk us pa ls d ps i u1 show ?thesis
        unfolding fetching_inv_def by auto
    next
      assume i: "i = 1"
      from qc_resume_inv[OF ib _ tk, of p' s2] r ps i
      have q: "promise_inv e s ''Escrow:Escrow'' p'"
        "token s2 = token (api st)" "userId s2 = userId (api st)"
        "partyIdentifier s2 = partyIdentifier (api st)" "localStorage s2 = localStorage (api st)"
        "sent s2 = sent (api st) \<and> (advanced b \<longrightarrow> advanced p')
           \<or> sent s2 = sent (api st) @ [?fb] \<and> \<not> advanced b \<and> advanced p'"
        by simp_all
      from q(6) sn kk obtain k' where
        "sent s2 = sent s @ query_requests e s @ replicate k' ?fb"
        "k' \<le> of_bool (advanced a) + of_bool (advanced p') + of_bool (advanced c)"
      proof (elim disjE)
        assume "sent s2 = sent (api st) \<and> (advanced b \<longrightarrow> advanced p')"
        with sn kk show ?thesis by (intro that[of k]) (cases "advanced b"; auto)+
      next
        assume "sent s2 = sent (api st) @ [?fb] \<and> \<not> advanced b \<and> advanced p'"
        with sn kk show ?thesis
          by (intro that[of "Suc k"]) (auto simp: replicate_append_same)
      qed
      with q ia ic tk us pa ls d ps i u1 show ?thesis
        unfolding fetching_inv_def by auto
    next
      assume i: "i = 2"
      from qc_resume_inv[OF ic _ tk, of p' s2] r ps i
      have q: "promise_inv e s ''CollateralLock:CollateralLock'' p'"
        "token s2 = token (api st)" "userId s2 = userId (api st)"
        "partyIdentifier s2 = partyIdentifier (api st)" "localStorage s2 = localStorage (api st)"
        "sent s2 = sent (api st) \<and> (advanced c \<longrightarrow> advanced p')
           \<or> sent s2 = sent (api st) @ [?fb] \<and> \<not> advanced c \<and> advanced p'"
        by simp_all
      from q(6) sn kk obtain k' where
        "sent s2 = sent s @ query_requests e s @ replicate k' ?fb"
        "k' \<le> of_bool (advanced a) + of_bool (advanced b) + of_bool (advanced p')"
      proof (elim disjE)
        assume "sent s2 = sent (api st) \<and> (advanced c \<longrightarrow> advanced p')"
        with sn kk show ?thesis by (intro that[of k]) (cases "advanced c"; auto)+
      next
        assume "sent s2 = sent (api st) @ [?fb] \<and> \<not> advanced c \<and> advanced p'"
        with sn kk show ?thesis
          by (intro that[of "Suc k"]) (auto simp: replicate_append_same)
      qed
      with q ia ib tk us pa ls d ps i u1 show ?thesis
        unfolding fetching_inv_def by auto
    qed
  qed
qed

lemma fetching_inv_run:
  "fetching_inv e s v st \<Longrightarrow> fetching_inv e s v (run e sch st)"
  by (induction sch arbitrary: st) (simp_all add: fetching_inv_deliver)

lemma all_settled3:
  "list_all settled [a, b, c] \<Longrightarrow> \<exists>t es l. a = Settled t \<and> b = Settled es \<and> c = Settled l"
  by (cases a; cases b; cases c) auto


lemma mixed_run:
  "promises (run env_mixed [2, 0, 1] (fetchAll_start env_mixed signed_in old_view))
     = [Settled (Inr (Some [alice_token])), Settled (Inl (TypeError ''Failed to fetch'')),
        Settled (Inl (Error ''Query failed: Service unavailable''))]"
  "sent (api (run env_mixed [2, 0, 1] (fetchAll_start env_mixed signed_in old_view)))
     = query_requests env_mixed signed_in"
  "simpleTokens (ui (run env_mixed [2, 0, 1] (fetchAll_start env_mixed signed_in old_view)))
     = [alice_token]"
  "escrows (ui (run env_mixed [2, 0, 1] (fetchAll_start env_mixed signed_in old_view))) = []"
  "collateralLocks (ui (run env_mixed [2, 0, 1] (fetchAll_start env_mixed signed_in old_view)))
     = []"
  by (simp_all add: fetchAll_start_def qc_start_def finalTemplateIds_def fetch_def deliver_def
      qc_resume_def on_query_response_def after_all_def collection_def or_empty_def
      env_mixed_def test_env_def query_request_def query_requests_def signed_in_simps
      numeral_2_eq_2)

lemma qc_resume_stage:
  "qc_resume e p s = (p', s') \<Longrightarrow> min 2 (Suc (stage p)) \<le> stage p'"
  by (cases p) (auto simp: qc_resume_def split: option.splits prod.splits)

lemma settled_stage: "settled p = (stage p = 2)"
  by (cases p) simp_all

lemma deliver_length: "length (promises (deliver e i st)) = length (promises st)"
  by (simp add: deliver_def split: prod.splits)

lemma deliver_stage:
  assumes "j < length (promises st)"
  shows "(if j = i then min 2 (Suc (stage (promises st ! j))) else stage (promises st ! j))
         \<le> stage (promises (deliver e i st) ! j)"
proof (cases "i < length (promises st) \<and> \<not> settled (promises st ! i)")
  case True
  obtain p' s2 where r: "qc_resume e (promises st ! i) (api st) = (p', s2)" by force
  with True have "promises (deliver e i st) = (promises st)[i := p']"
    by (simp add: deliver_def)
  with assms qc_resume_stage[OF r] show ?thesis
    by (simp add: nth_list_update)
next
  case False
  then have d: "deliver e i st = st" by (auto simp: deliver_def)
  from False assms show ?thesis
    by (auto simp: d settled_stage)
qed

lemma run_length: "length (promises (run e sch st)) = length (promises st)"
  by (induction sch arbitrary: st) (simp_all add: deliver_length)

lemma run_stage:
  "j < length (promises st) \<Longrightarrow>
     min 2 (stage (promises st ! j) + count_list sch j) \<le> stage (promises (run e sch st) ! j)"
proof (induction sch arbitrary: st)
  case Nil
  then show ?case by simp
next
  case (Cons i sch)
  from Cons.prems have j: "j < length (promises (deliver e i st))"
    by (simp add: deliver_length)
  from Cons.IH[OF j] deliver_stage[OF Cons.prems, of i e]
  show ?case by (auto split: if_splits simp: min_def)
qed

lemma fetchAll_start_length: "length (promises (fetchAll_start e s v)) = 3"
  by (simp add: fetchAll_start_def split: prod.splits)

lemma fair_schedule_settles:
  assumes "\<forall>i<3. 2 \<le> count_list sch i"
  shows "list_all settled (promises (run e sch (fetchAll_start e s v)))"
proof -
  let ?ps = "promises (run e sch (fetchAll_start e s v))"
  have len: "length ?ps = 3" by (simp add: run_length fetchAll_start_length)
  have "\<forall>j<3. settled (?ps ! j)"
  proof (intro allI impI)
    fix j :: nat assume j: "j < 3"
    then have "j < length (promises (fetchAll_start e s v))" by (simp add: fetchAll_start_length)
    from run_stage[OF this, of sch e] assms j have "2 \<le> stage (?ps ! j)" by (auto simp: min_def split: if_splits)
    moreover have "stage (?ps ! j) \<le> 2" by (cases "?ps ! j") simp_all
    ultimately show "settled (?ps ! j)" by (simp add: settled_stage)
  qed
  with len show ?thesis by (simp add: list_all_length)
qed

text \<open>
  C3. In \<open>fetchAllContracts\<close> the responses of the three queries may arrive in any order:
  the schedule is arbitrary, and under every schedule that delivers to each query the at
  most two responses it awaits, all three settle. As long as one of the three queries is
  pending the collections \<open>simpleTokens\<close>, \<open>escrows\<close> and \<open>collateralLocks\<close> are the ones
  from before the call, and \<open>fetchAllContracts\<close> has not returned; once all three have
  settled the three collections are set from the three outcomes.
\<close>

theorem view_updated_once_all_settled:
  assumes "isAuthenticated s"
  shows "(\<not> list_all settled (promises (run e sch (fetchAll_start e s v))) \<longrightarrow>
            same_collections (ui (run e sch (fetchAll_start e s v))) v
            \<and> fetchAllContracts e sch s v = None)
       \<and> (list_all settled (promises (run e sch (fetchAll_start e s v))) \<longrightarrow>
            (\<exists>t es l.
               promises (run e sch (fetchAll_start e s v)) = [Settled t, Settled es, Settled l]
               \<and> simpleTokens (ui (run e sch (fetchAll_start e s v))) = collection t
               \<and> escrows (ui (run e sch (fetchAll_start e s v))) = collection es
               \<and> collateralLocks (ui (run e sch (fetchAll_start e s v))) = collection l))
       \<and> ((\<forall>i<3. 2 \<le> count_list sch i) \<longrightarrow>
            list_all settled (promises (run e sch (fetchAll_start e s v))))"
proof -
  let ?st = "run e sch (fetchAll_start e s v)"
  from fetching_inv_run[OF fetching_inv_start[OF assms], of e v sch]
  obtain a b c where
    ps: "promises ?st = [a, b, c]"
    and uu: "ui ?st = after_all [a, b, c] (v\<lparr>loading := True, view_error := None\<rparr>)"
    unfolding fetching_inv_def by blast
  have 1: "\<not> list_all settled (promises ?st) \<longrightarrow>
      same_collections (ui ?st) v \<and> fetchAllContracts e sch s v = None"
    using assms ps uu
    by (auto simp: after_all_pending same_collections_def fetchAllContracts_def Let_def)
  have 2: "list_all settled (promises ?st) \<longrightarrow>
      (\<exists>t es l. promises ?st = [Settled t, Settled es, Settled l]
         \<and> simpleTokens (ui ?st) = collection t \<and> escrows (ui ?st) = collection es
         \<and> collateralLocks (ui ?st) = collection l)"
  proof
    assume "list_all settled (promises ?st)"
    with ps obtain t es l where "a = Settled t" "b = Settled es" "c = Settled l"
      using all_settled3 by force
    with ps uu show "\<exists>t es l. promises ?st = [Settled t, Settled es, Settled l]
         \<and> simpleTokens (ui ?st) = collection t \<and> escrows (ui ?st) = collection es
         \<and> collateralLocks (ui ?st) = collection l"
      by (simp add: after_all_settled)
  qed
  from 1 2 fair_schedule_settles[of sch e s v] show ?thesis by blast
qed

lemma mixed_prefix:
  "promises (run env_mixed [2, 0] (fetchAll_start env_mixed signed_in old_view))
     = [Settled (Inr (Some [alice_token])),
        AwaitQuery (NetworkError ''Failed to fetch''),
        Settled (Inl (Error ''Query failed: Service unavailable''))]"
  "escrows (ui (run env_mixed [2, 0] (fetchAll_start env_mixed signed_in old_view)))
     = [old_escrow]"
  "simpleTokens (ui (run env_mixed [2, 0] (fetchAll_start env_mixed signed_in old_view))) = []"
  by (simp_all add: fetchAll_start_def qc_start_def finalTemplateIds_def fetch_def deliver_def
      qc_resume_def on_query_response_def after_all_def collection_def or_empty_def
      env_mixed_def test_env_def query_request_def query_requests_def signed_in_simps
      numeral_2_eq_2 old_view_def)

theorem view_updated_once_all_settled_witness:
  "isAuthenticated signed_in
   \<and> \<not> list_all settled
        (promises (run env_mixed [2, 0] (fetchAll_start env_mixed signed_in old_view)))
   \<and> same_collections (ui (run env_mixed [2, 0] (fetchAll_start env_mixed signed_in old_view)))
        old_view
   \<and> fetchAllContracts env_mixed [2, 0] signed_in old_view = None
   \<and> list_all settled
        (promises (run env_mixed [2, 0, 1] (fetchAll_start env_mixed signed_in old_view)))
   \<and> simpleTokens (ui (run env_mixed [2, 0, 1] (fetchAll_start env_mixed signed_in old_view)))
       = [alice_token]
   \<and> list_all settled
        (promises (run env_mixed [1, 2, 0, 0, 1, 2] (fetchAll_start env_mixed signed_in old_view)))"
proof -
  have a: "isAuthenticated signed_in" by (simp add: isAuthenticated_def signed_in_simps)
  have b: "\<not> list_all settled
        (promises (run env_mixed [2, 0] (fetchAll_start env_mixed signed_in old_view)))"
    unfolding mixed_prefix(1) by simp
  from view_updated_once_all_settled[OF a, of env_mixed "[2, 0]" old_view] b
  have c: "same_collections (ui (run env_mixed [2, 0] (fetchAll_start env_mixed signed_in old_view)))
        old_view"
    and d: "fetchAllContracts env_mixed [2, 0] signed_in old_view = None"
    by blast+
  have f: "\<forall>i<3. 2 \<le> count_list [1, 2, 0, 0, 1, 2] (i::nat)"
    by (simp add: less_Suc_eq numeral_3_eq_3)
  from view_updated_once_all_settled[OF a, of env_mixed "[1, 2, 0, 0, 1, 2]" old_view] f
  have g: "list_all settled
        (promises (run env_mixed [1, 2, 0, 0, 1, 2] (fetchAll_start env_mixed signed_in old_view)))"
    by blast
  have h: "list_all settled
        (promises (run env_mixed [2, 0, 1] (fetchAll_start env_mixed signed_in old_view)))"
    unfolding mixed_run(1) by simp
  from a b c d g h mixed_run(3) show ?thesis by (simp del: run.simps)
qed





lemma legacy_base_url: "API_BASE_URL (legacy_env e) = legacy_base"
  by (simp add: API_BASE_URL_def legacy_env_def legacy_base_def)

lemma run_legacy_sends: "run_legacy gw e op s = (r, s') \<Longrightarrow> sends legacy_path s s'"
proof (cases op)
  case (LegacyLogin uid)
  assume "run_legacy gw e op s = (r, s')"
  with LegacyLogin show ?thesis
    by (auto elim!: thrown.elims
        simp: legacy_login_def fetch_def sends_def legacy_path_def login_request_def
          legacy_paths_def
        split: prod.splits response.splits if_splits sum.splits)
next
  case LegacyLogout
  assume "run_legacy gw e op s = (r, s')"
  with LegacyLogout show ?thesis by (auto simp: legacy_logout_def sends_def)
next
  case (LegacyQuery tids)
  assume "run_legacy gw e op s = (r, s')"
  with LegacyQuery show ?thesis
    by (auto elim!: thrown.elims
        simp: legacy_queryContracts_def fetch_def sends_def legacy_path_def query_request_def
          legacy_paths_def legacy_base_url
        split: prod.splits response.splits if_splits sum.splits)
next
  case (LegacyCreate tid pl)
  assume "run_legacy gw e op s = (r, s')"
  with LegacyCreate show ?thesis
    by (auto elim!: thrown.elims
        simp: createContract_def fetch_def sends_def legacy_path_def create_request_def
          legacy_paths_def legacy_base_url
        split: prod.splits response.splits if_splits sum.splits)
next
  case (LegacyExercise cid choice arg)
  assume "run_legacy gw e op s = (r, s')"
  with LegacyExercise show ?thesis
    by (auto elim!: thrown.elims
        simp: exerciseChoice_def fetch_def sends_def legacy_path_def exercise_request_def
          legacy_paths_def legacy_base_url
        split: prod.splits response.splits if_splits sum.splits)
qed

text \<open>
  C7, amended. Every request that an operation of the client sends goes to the base URL
  followed by one of the five paths \<open>/parties\<close>, \<open>/query\<close>, \<open>/create\<close>, \<open>/exercise\<close> and
  \<open>/packages\<close>; with \<open>REACT_APP_API_URL\<close> unset these are \<open>/v1/parties\<close>, \<open>/v1/query\<close>,
  \<open>/v1/create\<close>, \<open>/v1/exercise\<close> and \<open>/v1/packages\<close>. Every request of the earlier copy
  of the client goes to \<open>http://localhost:7575/v1\<close> followed by one of \<open>/auth/login\<close>,
  \<open>/query\<close>, \<open>/create\<close> and \<open>/exercise\<close>.
\<close>

theorem requests_target_known_paths:
  "(run_op e op s = (r, s') \<longrightarrow>
      sent s' = sent s @ new_requests s s'
      \<and> (\<forall>rq \<in> set (new_requests s s').
            url rq \<in> set (map ((@) (API_BASE_URL e)) (gateway_paths @ [''/packages''])))
      \<and> (REACT_APP_API_URL e = None \<longrightarrow>
           (\<forall>rq \<in> set (new_requests s s').
              url rq \<in> {''/v1/parties'', ''/v1/query'', ''/v1/create'', ''/v1/exercise'',
                         ''/v1/packages''})))
   \<and> (run_legacy gw e lop s = (r2, s2) \<longrightarrow>
        sent s2 = sent s @ new_requests s s2
        \<and> (\<forall>rq \<in> set (new_requests s s2).
              url rq \<in> {''http://localhost:7575/v1/auth/login'',
                         ''http://localhost:7575/v1/query'',
                         ''http://localhost:7575/v1/create'',
                         ''http://localhost:7575/v1/exercise''}))"
proof (intro conjI impI)
  assume a: "run_op e op s = (r, s')"
  from run_op_sends[OF a] obtain new
    where new: "sent s' = sent s @ new" "list_all (known_path e) new"
    by (auto simp: sends_def)
  then have nr: "new_requests s s' = new" by (simp add: new_requests_def)
  have ap: "gateway_paths @ [''/packages''] = all_paths"
    by (simp add: gateway_paths_def all_paths_def)
  show "sent s' = sent s @ new_requests s s'" using new nr by simp
  show "\<forall>rq \<in> set (new_requests s s').
      url rq \<in> set (map ((@) (API_BASE_URL e)) (gateway_paths @ [''/packages'']))"
    using new nr by (auto simp: list_all_iff known_path_def ap)
  assume "REACT_APP_API_URL e = None"
  then show "\<forall>rq \<in> set (new_requests s s').
      url rq \<in> {''/v1/parties'', ''/v1/query'', ''/v1/create'', ''/v1/exercise'',
                 ''/v1/packages''}"
    using new nr by (auto simp: list_all_iff known_path_def all_paths_def API_BASE_URL_def)
next
  assume a: "run_legacy gw e lop s = (r2, s2)"
  from run_legacy_sends[OF a] obtain new
    where new: "sent s2 = sent s @ new" "list_all legacy_path new"
    by (auto simp: sends_def)
  then have nr: "new_requests s s2 = new" by (simp add: new_requests_def)
  show "sent s2 = sent s @ new_requests s s2" using new nr by simp
  show "\<forall>rq \<in> set (new_requests s s2).
      url rq \<in> {''http://localhost:7575/v1/auth/login'', ''http://localhost:7575/v1/query'',
                 ''http://localhost:7575/v1/create'', ''http://localhost:7575/v1/exercise''}"
    using new nr by (auto simp: list_all_iff legacy_path_def legacy_paths_def legacy_base_def)
qed

lemma legacy_login_down:
  "run_legacy (\<lambda>h. unreachable) env_down (LegacyLogin ''alice'') fresh =
     (Some (TypeError ''Failed to fetch''), fresh\<lparr>sent := [login_request ''alice'']\<rparr>)"
  by (simp add: legacy_login_def fetch_def unreachable_def fresh_def constructor_def)

theorem requests_target_known_paths_witness:
  "run_op env_down GetPackages signed_in =
       (Some (TypeError ''Failed to fetch''),
        signed_in\<lparr>sent := [packages_request env_down ''tok'']\<rparr>)
   \<and> REACT_APP_API_URL env_down = None
   \<and> url (packages_request env_down ''tok'') = ''/v1/packages''
   \<and> run_legacy (\<lambda>h. unreachable) env_down (LegacyLogin ''alice'') fresh =
       (Some (TypeError ''Failed to fetch''), fresh\<lparr>sent := [login_request ''alice'']\<rparr>)
   \<and> url (login_request ''alice'') = ''http://localhost:7575/v1/auth/login''"
proof -
  have n: "REACT_APP_API_URL env_down = None"
    by (simp add: env_down_def test_env_def)
  from requests_target_known_paths[of env_down GetPackages signed_in] getPackages_down n
  have a: "url (packages_request env_down ''tok'') = ''/v1/packages''"
    by (simp add: new_requests_signed_in packages_request_def base_down del: run_op.simps)
  from requests_target_known_paths[where e = env_down and s = fresh
      and gw = "\<lambda>h. unreachable" and lop = "LegacyLogin ''alice''"]
    legacy_login_down
  have b: "url (login_request ''alice'') = ''http://localhost:7575/v1/auth/login''"
    by (simp add: login_request_def legacy_base_def)
  from getPackages_down n a b legacy_login_down show ?thesis by (simp del: run_op.simps run_legacy.simps)
qed

text \<open>
  C7, as stated, fails: \<open>getPackages\<close> sends its request to \<open>/v1/packages\<close>, which is
  none of \<open>/v1/parties\<close>, \<open>/v1/query\<close>, \<open>/v1/create\<close> and \<open>/v1/exercise\<close>; and the \<open>login\<close>
  of the earlier copy of the client sends its request to \<open>/auth/login\<close>.
\<close>

theorem four_paths_counterexample:
  "run_op env_down GetPackages signed_in =
       (Some (TypeError ''Failed to fetch''),
        signed_in\<lparr>sent := [packages_request env_down ''tok'']\<rparr>)
   \<and> url (packages_request env_down ''tok'') = ''/v1/packages''
   \<and> ''/v1/packages'' \<notin> set (map ((@) ''/v1'') gateway_paths)
   \<and> run_legacy (\<lambda>h. unreachable) env_down (LegacyLogin ''alice'') fresh =
       (Some (TypeError ''Failed to fetch''), fresh\<lparr>sent := [login_request ''alice'']\<rparr>)
   \<and> url (login_request ''alice'') = ''http://localhost:7575/v1/auth/login''
   \<and> ''http://localhost:7575/v1/auth/login''
        \<notin> set (map ((@) ''http://localhost:7575/v1'') gateway_paths)"
  using getPackages_down legacy_login_down
  by (simp add: packages_request_def base_down gateway_paths_def login_request_def
      legacy_base_def del: run_op.simps run_legacy.simps)

text \<open>
  C1, amended. Let \<open>createSimpleToken\<close> be called with a token held, and let \<open>packageId\<close>
  be what \<open>findPackageId\<close> gives. If it is a package id and the create with it succeeds,
  that result is returned; if that create fails with an error that is not a
  template-resolution error, the error is thrown again at once and no candidate list is
  fetched. Otherwise (no package id, or a template-resolution error of that create, after
  which the cached entry is removed) \<open>getPackages\<close> is called; if it throws, its error is
  thrown; if it returns the list \<open>packageIds\<close>, the outcome and the final state are those
  of the discovery that the specification words, run on the candidates from the last to
  the first (\<open>rev packageIds\<close>).
\<close>

theorem createSimpleToken_discovery:
  assumes "truthy (token s)"
    and "findPackageId e s = (Inr packageId, s1)"
  shows "((\<not> truthy packageId \<and> s2 = s1)
          \<or> (truthy packageId
              \<and> (\<exists>err sx.
                    createContract e (str_null packageId @ '':SimpleToken:SimpleToken'')
                        (token_payload issuer owner amount) s1 = (Inl err, sx)
                    \<and> (includes_str (message err) ''Cannot resolve''
                         \<or> includes_str (message err) ''unknownTemplateIds'')
                    \<and> s2 = sx\<lparr>localStorage := (localStorage sx)(''daml_package_id'' := None)\<rparr>))
          \<longrightarrow>
            (getPackages e s2 = (Inl err', s3) \<longrightarrow>
               createSimpleToken e issuer owner amount s = (Inl err', s3))
            \<and> (getPackages e s2 = (Inr packagesData, s3) \<longrightarrow>
                 createSimpleToken e issuer owner amount s
                   = spec_try_candidates e (rev (or_empty packagesData))
                       (token_payload issuer owner amount) (length (or_empty packagesData)) s3))
       \<and> (truthy packageId
            \<and> createContract e (str_null packageId @ '':SimpleToken:SimpleToken'')
                 (token_payload issuer owner amount) s1 = (Inl err0, s0)
            \<and> \<not> (includes_str (message err0) ''Cannot resolve''
                    \<or> includes_str (message err0) ''unknownTemplateIds'')
            \<longrightarrow> createSimpleToken e issuer owner amount s = (Inl err0, s0))
       \<and> (truthy packageId
            \<and> createContract e (str_null packageId @ '':SimpleToken:SimpleToken'')
                 (token_payload issuer owner amount) s1 = (Inr created, s0)
            \<longrightarrow> createSimpleToken e issuer owner amount s = (Inr created, s0))"
proof (intro conjI impI)
  assume h: "(\<not> truthy packageId \<and> s2 = s1)
          \<or> (truthy packageId
              \<and> (\<exists>err sx.
                    createContract e (str_null packageId @ '':SimpleToken:SimpleToken'')
                        (token_payload issuer owner amount) s1 = (Inl err, sx)
                    \<and> (includes_str (message err) ''Cannot resolve''
                         \<or> includes_str (message err) ''unknownTemplateIds'')
                    \<and> s2 = sx\<lparr>localStorage := (localStorage sx)(''daml_package_id'' := None)\<rparr>))"
  then have c: "create_with_found e packageId (token_payload issuer owner amount) s1 = (None, s2)"
    by (auto simp: create_with_found_def simple_token_template_def is_resolution_error_def)
  from assms c
  have d: "createSimpleToken e issuer owner amount s
      = discover_and_create e (token_payload issuer owner amount) s2"
    by (simp add: createSimpleToken_def)
  {
    assume "getPackages e s2 = (Inl err', s3)"
    then show "createSimpleToken e issuer owner amount s = (Inl err', s3)"
      by (simp add: d discover_and_create_def)
  }
  {
    assume "getPackages e s2 = (Inr packagesData, s3)"
    then show "createSimpleToken e issuer owner amount s
        = spec_try_candidates e (rev (or_empty packagesData))
            (token_payload issuer owner amount) (length (or_empty packagesData)) s3"
      by (simp add: d discover_and_create_def try_all_packages_spec)
  }
next
  assume "truthy packageId
      \<and> createContract e (str_null packageId @ '':SimpleToken:SimpleToken'')
           (token_payload issuer owner amount) s1 = (Inl err0, s0)
      \<and> \<not> (includes_str (message err0) ''Cannot resolve''
              \<or> includes_str (message err0) ''unknownTemplateIds'')"
  with assms show "createSimpleToken e issuer owner amount s = (Inl err0, s0)"
    by (simp add: createSimpleToken_def create_with_found_def simple_token_template_def
        is_resolution_error_def)
next
  assume "truthy packageId
      \<and> createContract e (str_null packageId @ '':SimpleToken:SimpleToken'')
           (token_payload issuer owner amount) s1 = (Inr created, s0)"
  with assms show "createSimpleToken e issuer owner amount s = (Inr created, s0)"
    by (simp add: createSimpleToken_def create_with_found_def simple_token_template_def)
qed

lemma alice_find: "findPackageId env_alice signed_in_stale = (Inr (Some ''stale''), signed_in_stale)"
  by (simp add: findPackageId_def stale_simps)

lemma alice_create_stale:
  "createContract env_alice (str_null (Some ''stale'') @ '':SimpleToken:SimpleToken'')
      alice_payload signed_in_stale
     = (Inl (Error ''Create failed: Cannot resolve template''), stale_tried)"
  by (simp add: createContract_def fetch_def stale_simps env_alice_def test_env_def
      create_only_p1_def create_request_def stale_tried_def API_BASE_URL_def)

lemma alice_packages:
  "getPackages env_alice stale_cleared = (Inr (Some [''p1'', ''p2'']), packages_listed)"
  by (simp add: getPackages_def fetch_def stale_cleared_def stale_tried_def stale_simps
      packages_listed_def env_alice_def test_env_def packages_request_def API_BASE_URL_def)

lemma alice_spec:
  "spec_try_candidates env_alice [''p2'', ''p1''] alice_payload 2 packages_listed
     = (Inr ''{}'', token_created)"
  by (simp add: createContract_def fetch_def packages_listed_def stale_cleared_def
      stale_tried_def stale_simps token_created_def env_alice_def test_env_def
      create_only_p1_def create_request_def API_BASE_URL_def)

theorem createSimpleToken_discovery_witness:
  "truthy (token signed_in_stale)
   \<and> findPackageId env_alice signed_in_stale = (Inr (Some ''stale''), signed_in_stale)
   \<and> createContract env_alice (str_null (Some ''stale'') @ '':SimpleToken:SimpleToken'')
        alice_payload signed_in_stale
       = (Inl (Error ''Create failed: Cannot resolve template''), stale_tried)
   \<and> includes_str (message (Error ''Create failed: Cannot resolve template'')) ''Cannot resolve''
   \<and> getPackages env_alice stale_cleared = (Inr (Some [''p1'', ''p2'']), packages_listed)
   \<and> createSimpleToken env_alice ''Alice::1220'' ''Bob::1220'' ''10'' signed_in_stale
       = (Inr ''{}'', token_created)
   \<and> localStorage token_created ''daml_package_id'' = Some ''p1''
   \<and> sent token_created =
        [create_request env_alice ''tok'' ''stale:SimpleToken:SimpleToken'' alice_payload,
         packages_request env_alice ''tok'',
         create_request env_alice ''tok'' ''p2:SimpleToken:SimpleToken'' alice_payload,
         create_request env_alice ''tok'' ''p1:SimpleToken:SimpleToken'' alice_payload]"
proof -
  have t: "truthy (token signed_in_stale)" by (simp add: stale_simps)
  have i: "includes_str (message (Error ''Create failed: Cannot resolve template''))
      ''Cannot resolve''"
    by simp
  have h: "(\<not> truthy (Some ''stale'') \<and> stale_cleared = signed_in_stale)
         \<or> (truthy (Some ''stale'')
             \<and> (\<exists>err sx.
                   createContract env_alice (str_null (Some ''stale'') @ '':SimpleToken:SimpleToken'')
                       (token_payload ''Alice::1220'' ''Bob::1220'' ''10'') signed_in_stale
                     = (Inl err, sx)
                   \<and> (includes_str (message err) ''Cannot resolve''
                        \<or> includes_str (message err) ''unknownTemplateIds'')
                   \<and> stale_cleared
                       = sx\<lparr>localStorage := (localStorage sx)(''daml_package_id'' := None)\<rparr>))"
    using alice_create_stale i
    by (auto simp: alice_payload_def stale_cleared_def)
  from createSimpleToken_discovery[OF t alice_find, of stale_cleared "''Alice::1220''"
      "''Bob::1220''" "''10''" _ packages_listed "Some [''p1'', ''p2'']"] h alice_packages
  have "createSimpleToken env_alice ''Alice::1220'' ''Bob::1220'' ''10'' signed_in_stale
       = spec_try_candidates env_alice (rev (or_empty (Some [''p1'', ''p2''])))
           (token_payload ''Alice::1220'' ''Bob::1220'' ''10'')
           (length (or_empty (Some [''p1'', ''p2'']))) packages_listed"
    by blast
  moreover have "rev (or_empty (Some [''p1'', ''p2''])) = [''p2'', ''p1'']"
    and "length (or_empty (Some [''p1'', ''p2''])) = 2"
    by (simp_all add: or_empty_def)
  ultimately
  have c: "createSimpleToken env_alice ''Alice::1220'' ''Bob::1220'' ''10'' signed_in_stale
       = (Inr ''{}'', token_created)"
    using alice_spec by (simp only: alice_payload_def)
  have "localStorage token_created ''daml_package_id'' = Some ''p1''"
    by (simp add: token_created_def)
  moreover have "sent token_created =
        [create_request env_alice ''tok'' ''stale:SimpleToken:SimpleToken'' alice_payload,
         packages_request env_alice ''tok'',
         create_request env_alice ''tok'' ''p2:SimpleToken:SimpleToken'' alice_payload,
         create_request env_alice ''tok'' ''p1:SimpleToken:SimpleToken'' alice_payload]"
    by (simp add: token_created_def packages_listed_def stale_cleared_def stale_tried_def)
  ultimately show ?thesis using t alice_find alice_create_stale i alice_packages c
    by simp
qed

lemma create_down:
  "createSimpleToken env_down ''Alice::1220'' ''Bob::1220'' ''10'' signed_in_stale
     = (Inl (TypeError ''Failed to fetch''),
        signed_in_stale\<lparr>sent :=
          [create_request env_down ''tok'' ''stale:SimpleToken:SimpleToken'' alice_payload]\<rparr>)"
  by (simp add: createSimpleToken_def findPackageId_def create_with_found_def createContract_def
      fetch_def env_down_def test_env_def unreachable_def is_resolution_error_def
      simple_token_template_def stale_simps create_request_def API_BASE_URL_def
      alice_payload_def)

text \<open>
  C1, as stated, fails: here the cached package id yields no successful create (the fetch
  of the create is rejected), and \<open>createSimpleToken\<close> throws that error without fetching
  the candidate list: the create is the only request sent.
\<close>

theorem createSimpleToken_discovery_counterexample:
  "findPackageId env_down signed_in_stale = (Inr (Some ''stale''), signed_in_stale)
   \<and> createSimpleToken env_down ''Alice::1220'' ''Bob::1220'' ''10'' signed_in_stale
       = (Inl (TypeError ''Failed to fetch''),
          signed_in_stale\<lparr>sent :=
            [create_request env_down ''tok'' ''stale:SimpleToken:SimpleToken'' alice_payload]\<rparr>)
   \<and> url (create_request env_down ''tok'' ''stale:SimpleToken:SimpleToken'' alice_payload)
       = ''/v1/create''
   \<and> url (packages_request env_down ''tok'') = ''/v1/packages''"
  using find_cached create_down
  by (simp add: create_request_def packages_request_def base_down)




















end
